theory Spec2Isabelle
  imports Complex_Main
begin

section \<open>The Turing-pattern engine of julia-explorer/main.js\<close>

text \<open>
  The engine is the class \<open>TuringSimulation\<close>. Its numerical work is done by three GLSL
  fragment shaders (simulation, render, brush) that run once per texel of a square
  texture, and by JavaScript methods that choose the source texture, the destination
  framebuffer and the uniforms, and flip \<open>currentTexture\<close> afterwards.

  Numbers are modelled as \<open>real\<close>: the rounding of 32-bit shader floats is not part of
  the model. The 8-bit storage of the ping-pong textures is: a colour rendered into a
  texture is stored rounded to one of the levels \<open>k/255\<close>. A texture is the list of its
  rows, each row the list of its texels.
\<close>

subsection \<open>GLSL values and built-in functions\<close>

text \<open>A \<open>vec4\<close> colour; the fields are the swizzles \<open>.r .g .b .a\<close>.\<close>

record vec4 =
  red :: real
  green :: real
  blue :: real
  alpha :: real

definition vadd :: "vec4 \<Rightarrow> vec4 \<Rightarrow> vec4" where
  "vadd u v = \<lparr>red = red u + red v, green = green u + green v,
               blue = blue u + blue v, alpha = alpha u + alpha v\<rparr>"

definition vsub :: "vec4 \<Rightarrow> vec4 \<Rightarrow> vec4" where
  "vsub u v = \<lparr>red = red u - red v, green = green u - green v,
               blue = blue u - blue v, alpha = alpha u - alpha v\<rparr>"

definition vscale :: "vec4 \<Rightarrow> real \<Rightarrow> vec4" where
  "vscale u k = \<lparr>red = red u * k, green = green u * k,
                 blue = blue u * k, alpha = alpha u * k\<rparr>"

text \<open>\<open>clamp(x, lo, hi) = min(max(x, lo), hi)\<close>, \<open>mix(x, y, t) = x*(1-t) + y*t\<close> and
  \<open>distance(p, q)\<close>, as GLSL defines them.\<close>

definition clamp :: "real \<Rightarrow> real \<Rightarrow> real \<Rightarrow> real" where
  "clamp x lo hi = min (max x lo) hi"

definition mix :: "real \<Rightarrow> real \<Rightarrow> real \<Rightarrow> real" where
  "mix x y t = x * (1 - t) + y * t"

definition distance :: "real \<times> real \<Rightarrow> real \<times> real \<Rightarrow> real" where
  "distance p q = sqrt ((fst p - fst q)\<^sup>2 + (snd p - snd q)\<^sup>2)"

subsection \<open>Textures\<close>

type_synonym texture = "vec4 list list"

text \<open>
  \<open>texture2D(u_state, v_texCoord + offset)\<close>. The fragment of texel \<open>(x, y)\<close> has
  \<open>v_texCoord = ((x + 1/2) / R, (y + 1/2) / R)\<close>, and every offset used by the shaders is
  a whole number of texels, so each sample falls on a texel centre, where linear filtering
  returns that texel. The textures are created with \<open>TEXTURE_WRAP_S = TEXTURE_WRAP_T =
  REPEAT\<close>: coordinates wrap modulo the resolution.
\<close>

definition texture2D :: "texture \<Rightarrow> nat \<Rightarrow> int \<Rightarrow> int \<Rightarrow> vec4" where
  "texture2D u_state R x y = u_state ! nat (y mod int R) ! nat (x mod int R)"

text \<open>
  \<open>gl.viewport(0, 0, R, R); gl.drawArrays(TRIANGLE_STRIP, 0, 4)\<close> over the full-screen
  quad: the fragment shader runs once for every texel of the destination.
\<close>

definition drawArrays :: "nat \<Rightarrow> (int \<Rightarrow> int \<Rightarrow> 'a) \<Rightarrow> 'a list list" where
  "drawArrays R frag = map (\<lambda>y. map (\<lambda>x. frag (int x) (int y)) [0..<R]) [0..<R]"

text \<open>
  \<open>createTexture\<close> allocates each ping-pong texture with \<open>gl.RGBA, gl.UNSIGNED_BYTE\<close>, and
  \<open>createFramebuffer\<close> attaches it as the colour buffer: every channel that a fragment
  shader writes to \<open>gl_FragColor\<close> is clamped to \<open>[0, 1]\<close>, multiplied by 255 and rounded to
  the nearest integer, and reads back as that integer divided by 255.
\<close>

definition unorm8 :: "real \<Rightarrow> real" where
  "unorm8 v = real_of_int (round (clamp v 0 1 * 255)) / 255"

definition storeRGBA8 :: "vec4 \<Rightarrow> vec4" where
  "storeRGBA8 c = \<lparr>red = unorm8 (red c), green = unorm8 (green c),
                   blue = unorm8 (blue c), alpha = unorm8 (alpha c)\<rparr>"

text \<open>A texel as an 8-bit texture holds it: every channel is one of the levels.\<close>

definition texel8 :: "vec4 \<Rightarrow> bool" where
  "texel8 c = (storeRGBA8 c = c)"

subsection \<open>The simulation fragment shader\<close>

text \<open>
  \<open>simulationSource\<close>. The uniform \<open>u_system\<close> is declared by the shader; its body never
  reads it.
\<close>

definition simulationSource ::
  "texture \<Rightarrow> nat \<Rightarrow> real \<Rightarrow> real \<Rightarrow> real \<Rightarrow> real \<Rightarrow> real \<Rightarrow> int \<Rightarrow> int \<Rightarrow> int \<Rightarrow> vec4" where
  "simulationSource u_state R u_feed u_kill u_diffusionA u_diffusionB u_dt u_system x y =
    (let center = texture2D u_state R x y;
         left = texture2D u_state R (x - 1) y;
         right = texture2D u_state R (x + 1) y;
         up = texture2D u_state R x (y + 1);
         down = texture2D u_state R x (y - 1);
         ul = texture2D u_state R (x - 1) (y + 1);
         ur = texture2D u_state R (x + 1) (y + 1);
         dl = texture2D u_state R (x - 1) (y - 1);
         dr = texture2D u_state R (x + 1) (y - 1);
         laplacian =
           vsub (vadd (vscale (vadd (vadd (vadd left right) up) down) (2 / 10))
                      (vscale (vadd (vadd (vadd ul ur) dl) dr) (5 / 100)))
                center;
         a = red center;
         b = green center;
         lapA = red laplacian;
         lapB = green laplacian;
         reaction = a * b * b;
         newA = a + (u_diffusionA * lapA - reaction + u_feed * (1 - a)) * u_dt;
         newB = b + (u_diffusionB * lapB + reaction - (u_kill + u_feed) * b) * u_dt
     in \<lparr>red = clamp newA 0 1, green = clamp newB 0 1, blue = 0, alpha = 1\<rparr>)"

subsection \<open>The state of the simulation object\<close>

datatype system = Gray_Scott | Brusselator | Schnakenberg

record sim_params =
  feedRate :: real
  killRate :: real
  diffusionA :: real
  diffusionB :: real
  simSpeed :: real
  system :: system

datatype color_scheme = Classic | Thermal | Ocean | Forest | Sunset | Neon

record visual_params =
  colorScheme :: color_scheme
  contrast :: real
  brightness :: real

datatype tool_type = Brush | Eraser | Stamp

datatype chemical = ChemA | ChemB

record tool_state =
  tool_type :: tool_type
  tool_chemical :: chemical
  tool_size :: real
  tool_strength :: real

datatype journey_type = JNone | Linear | Circular | Figure8 | Random

text \<open>\<open>journey.targetF\<close> and \<open>journey.targetK\<close> are absent until the random walk first
  assigns them, and are only ever assigned together: one optional pair.\<close>

record journey_state =
  journey_type :: journey_type
  active :: bool
  speed :: real
  time :: real
  target :: "(real \<times> real) option"

text \<open>
  \<open>textures\<close> is the two-element array of ping-pong textures (framebuffer \<open>i\<close> renders
  into texture \<open>i\<close>); \<open>currentTexture\<close> is the index of the one that holds the field.
\<close>

record sim =
  params :: sim_params
  visual :: visual_params
  tool :: tool_state
  journey :: journey_state
  isRunning :: bool
  resolution :: nat
  textures :: "texture list"
  currentTexture :: nat

text \<open>What \<open>createTextures\<close> establishes and every method keeps.\<close>

definition wellformed :: "sim \<Rightarrow> bool" where
  "wellformed s = (length (textures s) = 2 \<and> currentTexture s < 2)"

definition current :: "sim \<Rightarrow> texture" where
  "current s = textures s ! currentTexture s"

definition scratch :: "sim \<Rightarrow> texture" where
  "scratch s = textures s ! (1 - currentTexture s)"

subsection \<open>The stepper: \<open>simulate\<close>\<close>

text \<open>One iteration of the loop in \<open>simulate\<close>: the simulation shader reads
  \<open>textures[currentTexture]\<close> and renders into \<open>framebuffers[1 - currentTexture]\<close>, an 8-bit
  texture, with \<open>u_dt = 1.0\<close>; \<open>u_system\<close> is never set and keeps the default 0; then the
  index flips.\<close>

definition substep :: "sim \<Rightarrow> sim" where
  "substep s =
    (let srcTexture = textures s ! currentTexture s;
         dst = 1 - currentTexture s;
         p = params s;
         out = drawArrays (resolution s)
                 (\<lambda>x y. storeRGBA8
                    (simulationSource srcTexture (resolution s) (feedRate p) (killRate p)
                       (diffusionA p) (diffusionB p) 1 0 x y))
     in s\<lparr>textures := (textures s)[dst := out], currentTexture := 1 - currentTexture s\<rparr>)"

fun substeps :: "nat \<Rightarrow> sim \<Rightarrow> sim" where
  "substeps 0 s = s"
| "substeps (Suc n) s = substeps n (substep s)"

text \<open>\<open>steps = Math.ceil(simSpeed * 8)\<close>; the loop \<open>for (i = 0; i < steps; i++)\<close> runs
  \<open>steps\<close> times, and not at all when \<open>steps \<le> 0\<close>.\<close>

definition simulate :: "sim \<Rightarrow> sim" where
  "simulate s =
    (if \<not> isRunning s then s
     else substeps (nat \<lceil>simSpeed (params s) * 8\<rceil>) s)"

text \<open>\<open>togglePause\<close>.\<close>

definition togglePause :: "sim \<Rightarrow> sim" where
  "togglePause s = s\<lparr>isRunning := \<not> isRunning s\<rparr>"

subsection \<open>The colorizer: \<open>render\<close>\<close>

type_synonym vec3 = "real \<times> real \<times> real"

text \<open>\<open>renderSource\<close>: the shader reads \<open>state.g\<close> only.\<close>

definition renderSource ::
  "texture \<Rightarrow> nat \<Rightarrow> vec3 \<Rightarrow> vec3 \<Rightarrow> real \<Rightarrow> real \<Rightarrow> int \<Rightarrow> int \<Rightarrow> vec4" where
  "renderSource u_state R u_color1 u_color2 u_contrast u_brightness x y =
    (let state = texture2D u_state R x y;
         value0 = green state;
         value1 = (value0 - 5 / 10) * u_contrast + 5 / 10;
         value2 = value1 * u_brightness;
         value3 = clamp value2 0 1
     in case (u_color1, u_color2) of
          ((r1, g1, b1), (r2, g2, b2)) \<Rightarrow>
            \<lparr>red = mix r1 r2 value3, green = mix g1 g2 value3,
             blue = mix b1 b2 value3, alpha = 1\<rparr>)"

text \<open>The table \<open>colorSchemes\<close>: two endpoint colours per scheme, as bytes.\<close>

fun colorSchemes :: "color_scheme \<Rightarrow> (real \<times> real \<times> real) \<times> (real \<times> real \<times> real)" where
  "colorSchemes Classic = ((0, 0, 0), (255, 255, 255))"
| "colorSchemes Thermal = ((0, 0, 128), (255, 0, 0))"
| "colorSchemes Ocean = ((0, 30, 60), (0, 200, 255))"
| "colorSchemes Forest = ((10, 30, 10), (100, 200, 80))"
| "colorSchemes Sunset = ((60, 20, 80), (255, 150, 50))"
| "colorSchemes Neon = ((10, 0, 30), (0, 255, 200))"

text \<open>\<open>render\<close> draws the current texture to the canvas, whose width and height are the
  resolution. It assigns to no field of the object: the model returns the frame only.\<close>

definition render :: "sim \<Rightarrow> vec4 list list" where
  "render s =
    (case colorSchemes (colorScheme (visual s)) of
       ((r1, g1, b1), (r2, g2, b2)) \<Rightarrow>
         drawArrays (resolution s)
           (renderSource (textures s ! currentTexture s) (resolution s)
              (r1 / 255, g1 / 255, b1 / 255) (r2 / 255, g2 / 255, b2 / 255)
              (contrast (visual s)) (brightness (visual s))))"

subsection \<open>The forcing operator: brush and stamp\<close>

text \<open>The two assignments to \<open>falloff\<close> in \<open>brushSource\<close>:
  \<open>falloff = 1.0 - (dist / u_brushSize); falloff = falloff * falloff * u_brushStrength\<close>.\<close>

definition brushFalloff :: "real \<Rightarrow> real \<Rightarrow> real \<Rightarrow> real" where
  "brushFalloff d u_brushSize u_brushStrength =
    (let falloff = 1 - d / u_brushSize in falloff * falloff * u_brushStrength)"

text \<open>\<open>brushSource\<close>. \<open>pos = v_texCoord * u_resolution\<close> is the centre of the texel; both
  branches assign to \<open>current.g\<close>.\<close>

definition brushSource ::
  "texture \<Rightarrow> nat \<Rightarrow> real \<times> real \<Rightarrow> real \<Rightarrow> real \<Rightarrow> int \<Rightarrow> int \<Rightarrow> int \<Rightarrow> vec4" where
  "brushSource u_state R u_brushPos u_brushSize u_brushStrength u_chemical x y =
    (let cur = texture2D u_state R x y;
         pos = (real_of_int x + 1 / 2, real_of_int y + 1 / 2);
         dist = distance pos u_brushPos
     in if dist < u_brushSize then
          (let falloff = brushFalloff dist u_brushSize u_brushStrength
           in if u_chemical = 0 then cur\<lparr>green := max 0 (green cur - falloff)\<rparr>
              else cur\<lparr>green := min 1 (green cur + falloff)\<rparr>)
        else cur)"

text \<open>\<open>applyBrush(x, y)\<close>: the brush shader reads \<open>textures[currentTexture]\<close>, renders into
  the other framebuffer, an 8-bit texture, and the index flips.\<close>

definition applyBrush :: "sim \<Rightarrow> real \<Rightarrow> real \<Rightarrow> sim" where
  "applyBrush s x y =
    (let srcTexture = textures s ! currentTexture s;
         dst = 1 - currentTexture s;
         out = drawArrays (resolution s)
                 (\<lambda>cx cy. storeRGBA8
                    (brushSource srcTexture (resolution s) (x, real (resolution s) - y)
                       (tool_size (tool s)) (tool_strength (tool s))
                       (if tool_chemical (tool s) = ChemB then 1 else 0) cx cy))
     in s\<lparr>textures := (textures s)[dst := out], currentTexture := 1 - currentTexture s\<rparr>)"

text \<open>The \<open>dist\<close> that the brush shader computes in the fragment of texel \<open>(x, y)\<close> when
  \<open>applyBrush(px, py)\<close> runs.\<close>

definition brushDist :: "sim \<Rightarrow> real \<Rightarrow> real \<Rightarrow> nat \<Rightarrow> nat \<Rightarrow> real" where
  "brushDist s px py x y =
    distance (real x + 1 / 2, real y + 1 / 2) (px, real (resolution s) - py)"

text \<open>The values \<open>dy = -radius, -radius + 1, ...\<close> with \<open>dy <= radius\<close> that the loops of
  \<open>applyStamp\<close> run through.\<close>

definition loopOffsets :: "real \<Rightarrow> real list" where
  "loopOffsets radius = map (\<lambda>k. - radius + real k) [0..<nat (\<lfloor>2 * radius\<rfloor> + 1)]"

text \<open>The body of the inner loop: \<open>data[i + 1] = 255\<close> sets channel B of one pixel to 1.\<close>

definition stampPixel :: "nat \<Rightarrow> real \<Rightarrow> real \<Rightarrow> real \<Rightarrow> real \<Rightarrow> real \<Rightarrow> texture \<Rightarrow> texture" where
  "stampPixel R x y radius dy dx data =
    (if dx * dx + dy * dy \<le> radius * radius then
       (let px = \<lfloor>x + dx\<rfloor>;
            py = \<lfloor>real R - y + dy\<rfloor>
        in if 0 \<le> px \<and> px < int R \<and> 0 \<le> py \<and> py < int R
           then data[nat py := (data ! nat py)[nat px := (data ! nat py ! nat px)\<lparr>green := 1\<rparr>]]
           else data)
     else data)"

text \<open>\<open>applyStamp(x, y)\<close>: \<open>readPixels\<close> copies the current texture into \<open>data\<close>, the loops
  edit \<open>data\<close>, and \<open>texImage2D\<close> uploads \<open>data\<close> into \<open>textures[currentTexture]\<close> again.
  \<open>currentTexture\<close> is not assigned.\<close>

definition applyStamp :: "sim \<Rightarrow> real \<Rightarrow> real \<Rightarrow> sim" where
  "applyStamp s x y =
    (let data = textures s ! currentTexture s;
         radius = tool_size (tool s);
         data' = fold (\<lambda>dy d. fold (\<lambda>dx. stampPixel (resolution s) x y radius dy dx)
                                  (loopOffsets radius) d)
                   (loopOffsets radius) data
     in s\<lparr>textures := (textures s)[currentTexture s := data']\<rparr>)"

text \<open>\<open>handleCanvasInteraction\<close>, from the grid coordinates \<open>(x, y)\<close> of the pointer on: the
  eraser is the brush with chemical A; \<open>tool.chemical\<close> is restored afterwards.\<close>

definition handleCanvasInteraction :: "sim \<Rightarrow> real \<Rightarrow> real \<Rightarrow> sim" where
  "handleCanvasInteraction s x y =
    (if tool_type (tool s) = Brush \<or> tool_type (tool s) = Eraser then
       (let chem = (if tool_type (tool s) = Eraser then ChemA else tool_chemical (tool s));
            origChemical = tool_chemical (tool s);
            s1 = applyBrush (s\<lparr>tool := (tool s)\<lparr>tool_chemical := chem\<rparr>\<rparr>) x y
        in s1\<lparr>tool := (tool s1)\<lparr>tool_chemical := origChemical\<rparr>\<rparr>)
     else if tool_type (tool s) = Stamp then applyStamp s x y
     else s)"

subsection \<open>The parameter controller\<close>

text \<open>The sliders wired by \<open>setupUI\<close>. \<open>setupSlider\<close> gives each slider and its number
  box the same handler, \<open>update(parseFloat(e.target.value))\<close>, whose first act is the
  slider's callback \<open>(v) => this.params.<key> = v\<close> or \<open>(v) => this.visual.<key> = v\<close>.\<close>

datatype slider = FeedRateSlider | KillRateSlider | DiffusionASlider | DiffusionBSlider
  | SimSpeedSlider | ContrastSlider | BrightnessSlider

fun sliderInput :: "sim \<Rightarrow> slider \<Rightarrow> real \<Rightarrow> sim" where
  "sliderInput s FeedRateSlider v = s\<lparr>params := (params s)\<lparr>feedRate := v\<rparr>\<rparr>"
| "sliderInput s KillRateSlider v = s\<lparr>params := (params s)\<lparr>killRate := v\<rparr>\<rparr>"
| "sliderInput s DiffusionASlider v = s\<lparr>params := (params s)\<lparr>diffusionA := v\<rparr>\<rparr>"
| "sliderInput s DiffusionBSlider v = s\<lparr>params := (params s)\<lparr>diffusionB := v\<rparr>\<rparr>"
| "sliderInput s SimSpeedSlider v = s\<lparr>params := (params s)\<lparr>simSpeed := v\<rparr>\<rparr>"
| "sliderInput s ContrastSlider v = s\<lparr>visual := (visual s)\<lparr>contrast := v\<rparr>\<rparr>"
| "sliderInput s BrightnessSlider v = s\<lparr>visual := (visual s)\<lparr>brightness := v\<rparr>\<rparr>"

text \<open>The handler of the system selector: \<open>this.params.system = e.target.value\<close>.\<close>

definition systemSelect :: "sim \<Rightarrow> system \<Rightarrow> sim" where
  "systemSelect s v = s\<lparr>params := (params s)\<lparr>system := v\<rparr>\<rparr>"

text \<open>\<open>loadFromURL\<close>, for the numeric keys \<open>f\<close> and \<open>k\<close> of the query string: a key that is
  present is parsed and stored.\<close>

definition loadFromURL :: "sim \<Rightarrow> real option \<Rightarrow> real option \<Rightarrow> sim" where
  "loadFromURL s f k =
    (let s1 = (case f of None \<Rightarrow> s | Some v \<Rightarrow> s\<lparr>params := (params s)\<lparr>feedRate := v\<rparr>\<rparr>)
     in case k of None \<Rightarrow> s1 | Some v \<Rightarrow> s1\<lparr>params := (params s1)\<lparr>killRate := v\<rparr>\<rparr>)"

text \<open>The end of \<open>updateJourney\<close>: \<open>f\<close> and \<open>k\<close> are clamped and published.\<close>

definition publish :: "sim \<Rightarrow> real \<Rightarrow> real \<Rightarrow> sim" where
  "publish s f k =
    s\<lparr>params := (params s)\<lparr>feedRate := max 0 (min (1 / 10) f),
                             killRate := max 0 (min (8 / 100) k)\<rparr>\<rparr>"

text \<open>\<open>updateJourney(dt)\<close>. \<open>rnd0\<close>, \<open>rnd1\<close>, \<open>rnd2\<close> stand for the results of the calls of
  \<open>Math.random()\<close> in the random walk.\<close>

definition updateJourney :: "sim \<Rightarrow> real \<Rightarrow> real \<Rightarrow> real \<Rightarrow> real \<Rightarrow> sim" where
  "updateJourney s dt rnd0 rnd1 rnd2 =
    (if \<not> active (journey s) \<or> journey_type (journey s) = JNone then s
     else
       (let t = time (journey s) + dt * speed (journey s) * (1 / 1000);
            s1 = s\<lparr>journey := (journey s)\<lparr>time := t\<rparr>\<rparr>
        in case journey_type (journey s) of
             JNone \<Rightarrow> s1
           | Linear \<Rightarrow>
               (let progress = (sin (t * (5 / 10)) + 1) / 2
                in publish s1 (2 / 100 + progress * (4 / 100)) (45 / 1000 + progress * (25 / 1000)))
           | Circular \<Rightarrow>
               publish s1 (4 / 100 + cos t * (15 / 1000)) (58 / 1000 + sin t * (15 / 1000))
           | Figure8 \<Rightarrow>
               publish s1 (4 / 100 + sin t * (2 / 100)) (58 / 1000 + sin (t * 2) * (1 / 100))
           | Random \<Rightarrow>
               (let fresh = (15 / 1000 + rnd1 * (45 / 1000), 45 / 1000 + rnd2 * (3 / 100));
                    tgt = (case target (journey s1) of
                             None \<Rightarrow> fresh
                           | Some (tf, tk) \<Rightarrow>
                               if tf = 0 \<or> rnd0 < 1 / 100 then fresh else (tf, tk));
                    s2 = s1\<lparr>journey := (journey s1)\<lparr>target := Some tgt\<rparr>\<rparr>;
                    F = feedRate (params s);
                    K = killRate (params s)
                in publish s2 (F + (fst tgt - F) * (2 / 100)) (K + (snd tgt - K) * (2 / 100)))))"

text \<open>The locals \<open>progress\<close> and \<open>eased\<close> of the closure \<open>animate\<close> in \<open>animateToParams\<close>,
  with \<open>duration = 1000\<close>: \<open>now\<close> is what \<open>performance.now()\<close> returns in this run of the
  closure.\<close>

definition progressAt :: "real \<Rightarrow> real \<Rightarrow> real" where
  "progressAt startTime now = (let elapsed = now - startTime in min 1 (elapsed / 1000))"

definition easedAt :: "real \<Rightarrow> real \<Rightarrow> real" where
  "easedAt startTime now = 1 - (1 - progressAt startTime now) ^ 3"

text \<open>One run of the closure.\<close>

definition animateFrame :: "real \<Rightarrow> real \<Rightarrow> real \<Rightarrow> real \<Rightarrow> real \<Rightarrow> real \<Rightarrow> sim \<Rightarrow> sim" where
  "animateFrame startF startK targetF targetK startTime now s =
    (let eased = easedAt startTime now
     in s\<lparr>params := (params s)\<lparr>feedRate := startF + (targetF - startF) * eased,
                                killRate := startK + (targetK - startK) * eased\<rparr>\<rparr>)"

text \<open>The closure reschedules itself with \<open>requestAnimationFrame\<close> while \<open>progress < 1\<close>.
  The list holds the clock readings of its successive runs; when it is used up, no
  further frame has been delivered yet.\<close>

fun animateLoop :: "real \<Rightarrow> real \<Rightarrow> real \<Rightarrow> real \<Rightarrow> real \<Rightarrow> real list \<Rightarrow> sim \<Rightarrow> sim" where
  "animateLoop startF startK targetF targetK startTime [] s = s"
| "animateLoop startF startK targetF targetK startTime (now # nows) s =
    (let s1 = animateFrame startF startK targetF targetK startTime now s
     in if progressAt startTime now < 1
        then animateLoop startF startK targetF targetK startTime nows s1
        else s1)"

text \<open>\<open>animateToParams(targetF, targetK)\<close>: the start values are the parameters at the
  call, \<open>startTime\<close> is the clock at the call, and the closure runs at once.\<close>

definition animateToParams :: "sim \<Rightarrow> real \<Rightarrow> real \<Rightarrow> real \<Rightarrow> real list \<Rightarrow> sim" where
  "animateToParams s targetF targetK startTime nows =
    animateLoop (feedRate (params s)) (killRate (params s)) targetF targetK startTime nows s"

subsection \<open>The specification's formulas\<close>

text \<open>The definitions of this subsection follow the words of the specification, for
  comparison with the shaders above.\<close>

definition clamp01 :: "real \<Rightarrow> real" where
  "clamp01 v = (if v < 0 then 0 else if 1 < v then 1 else v)"

text \<open>The toroidal neighbour of cell \<open>(x, y)\<close> at offset \<open>(dx, dy)\<close> with \<open>dx, dy\<close> in
  \<open>{-1, 0, 1}\<close>, given as \<open>dx + 1\<close> and \<open>dy + 1\<close>.\<close>

definition spec_neighbour :: "texture \<Rightarrow> nat \<Rightarrow> nat \<Rightarrow> nat \<Rightarrow> nat \<Rightarrow> nat \<Rightarrow> vec4" where
  "spec_neighbour field R x y dx1 dy1 = field ! ((y + R + dy1 - 1) mod R) ! ((x + R + dx1 - 1) mod R)"

text \<open>\<open>laplacian = 0.2*(N+S+E+W) + 0.05*(NE+NW+SE+SW) - center\<close> of one channel.\<close>

definition spec_laplacian :: "(vec4 \<Rightarrow> real) \<Rightarrow> texture \<Rightarrow> nat \<Rightarrow> nat \<Rightarrow> nat \<Rightarrow> real" where
  "spec_laplacian ch field R x y =
    (2 / 10) * (ch (spec_neighbour field R x y 1 2) + ch (spec_neighbour field R x y 1 0)
               + ch (spec_neighbour field R x y 2 1) + ch (spec_neighbour field R x y 0 1))
    + (5 / 100) * (ch (spec_neighbour field R x y 2 2) + ch (spec_neighbour field R x y 0 2)
                  + ch (spec_neighbour field R x y 2 0) + ch (spec_neighbour field R x y 0 0))
    - ch (spec_neighbour field R x y 1 1)"

text \<open>Gray-Scott: \<open>da = -a*b*b + F*(1-a)\<close>, \<open>db = a*b*b - (K+F)*b\<close>.\<close>

definition spec_gray_scott :: "real \<Rightarrow> real \<Rightarrow> real \<Rightarrow> real \<Rightarrow> real \<times> real" where
  "spec_gray_scott a b F K = (- a * b * b + F * (1 - a), a * b * b - (K + F) * b)"

text \<open>\<open>newA = clamp01(a + dt*(diffusionA*lapA + da))\<close>,
  \<open>newB = clamp01(b + dt*(diffusionB*lapB + db))\<close>, with \<open>dt = 1.0\<close>.\<close>

definition spec_dt :: real where
  "spec_dt = 1"

definition spec_newA :: "sim_params \<Rightarrow> texture \<Rightarrow> nat \<Rightarrow> nat \<Rightarrow> nat \<Rightarrow> real" where
  "spec_newA p field R x y =
    (let a = red (field ! y ! x); b = green (field ! y ! x)
     in clamp01 (a + spec_dt * (diffusionA p * spec_laplacian red field R x y
                               + fst (spec_gray_scott a b (feedRate p) (killRate p)))))"

definition spec_newB :: "sim_params \<Rightarrow> texture \<Rightarrow> nat \<Rightarrow> nat \<Rightarrow> nat \<Rightarrow> real" where
  "spec_newB p field R x y =
    (let a = red (field ! y ! x); b = green (field ! y ! x)
     in clamp01 (b + spec_dt * (diffusionB p * spec_laplacian green field R x y
                               + snd (spec_gray_scott a b (feedRate p) (killRate p)))))"

text \<open>The distance between two grid positions "accounting for toroidal wrap": along each
  axis the shorter way round.\<close>

definition spec_wrap_delta :: "nat \<Rightarrow> real \<Rightarrow> real" where
  "spec_wrap_delta R d = min \<bar>d\<bar> (real R - \<bar>d\<bar>)"

definition spec_torus_distance :: "nat \<Rightarrow> real \<times> real \<Rightarrow> real \<times> real \<Rightarrow> real" where
  "spec_torus_distance R p q =
    sqrt ((spec_wrap_delta R (fst p - fst q))\<^sup>2 + (spec_wrap_delta R (snd p - snd q))\<^sup>2)"

text \<open>A field \<open>d'\<close> is a stamped copy of a field \<open>d\<close>: same shape, and every texel either as
  it was or with channel B set to 1.\<close>

definition stamped :: "texture \<Rightarrow> texture \<Rightarrow> bool" where
  "stamped d d' = list_all2 (list_all2 (\<lambda>c c'. c' = c \<or> c' = c\<lparr>green := 1\<rparr>)) d d'"

text \<open>The colorizer as the specification words it: the clamp comes before the
  multiplication by the brightness.\<close>

definition spec_value :: "real \<Rightarrow> real \<Rightarrow> real \<Rightarrow> real" where
  "spec_value v c br = clamp01 ((v - 5 / 10) * c + 5 / 10) * br"

text \<open>The parameter domain: feed rate in \<open>[0, 0.1]\<close>, kill rate in \<open>[0, 0.08]\<close>.\<close>

definition inDomain :: "sim_params \<Rightarrow> bool" where
  "inDomain p = (0 \<le> feedRate p \<and> feedRate p \<le> 1 / 10 \<and> 0 \<le> killRate p \<and> killRate p \<le> 8 / 100)"

text \<open>Every texel of a field has both channels within \<open>[0, 1]\<close>.\<close>

definition in01 :: "vec4 \<Rightarrow> bool" where
  "in01 c = (0 \<le> red c \<and> red c \<le> 1 \<and> 0 \<le> green c \<and> green c \<le> 1)"

definition field01 :: "texture \<Rightarrow> bool" where
  "field01 field = list_all (list_all in01) field"

subsection \<open>A small concrete engine\<close>

text \<open>A 3 by 3 field with chemical A everywhere and chemical B in the middle cell, in
  both textures, as \<open>seedPattern\<close> uploads one field to both.\<close>

definition cellA :: vec4 where
  "cellA = \<lparr>red = 1, green = 0, blue = 0, alpha = 1\<rparr>"

definition cellB :: vec4 where
  "cellB = \<lparr>red = 1, green = 1, blue = 0, alpha = 1\<rparr>"

definition seed3 :: texture where
  "seed3 = [[cellA, cellA, cellA], [cellA, cellB, cellA], [cellA, cellA, cellA]]"

definition sim0 :: sim where
  "sim0 = \<lparr>params = \<lparr>feedRate = 55 / 1000, killRate = 62 / 1000, diffusionA = 21 / 100,
                      diffusionB = 105 / 1000, simSpeed = 1, system = Gray_Scott\<rparr>,
           visual = \<lparr>colorScheme = Classic, contrast = 1, brightness = 1\<rparr>,
           tool = \<lparr>tool_type = Brush, tool_chemical = ChemB, tool_size = 30, tool_strength = 1\<rparr>,
           journey = \<lparr>journey_type = JNone, active = False, speed = 1, time = 0, target = None\<rparr>,
           isRunning = True, resolution = 3, textures = [seed3, seed3], currentTexture = 0\<rparr>"

text \<open>The same engine with \<open>F = 0.02\<close> and \<open>K = 0.03\<close>.\<close>

definition simE :: sim where
  "simE = sliderInput (sliderInput sim0 FeedRateSlider (2 / 100)) KillRateSlider (3 / 100)"

text \<open>The same engine with the contrast slider at 2 and the brightness slider at 0.5.\<close>

definition simV :: sim where
  "simV = sliderInput (sliderInput sim0 ContrastSlider 2) BrightnessSlider (1 / 2)"

text \<open>A 3 by 3 field with no chemical B, and engines on it and on the seeded field whose
  brush has size 1.2, painting chemical B or chemical A.\<close>

definition blank3 :: texture where
  "blank3 = [[cellA, cellA, cellA], [cellA, cellA, cellA], [cellA, cellA, cellA]]"

definition simBlank :: sim where
  "simBlank = sim0\<lparr>textures := [blank3, blank3]\<rparr>"

definition simSmallB :: sim where
  "simSmallB = sim0\<lparr>tool := (tool sim0)\<lparr>tool_size := 12 / 10\<rparr>\<rparr>"

definition simSmallA :: sim where
  "simSmallA = sim0\<lparr>tool := (tool sim0)\<lparr>tool_size := 12 / 10, tool_chemical := ChemA\<rparr>\<rparr>"

text \<open>An engine whose two textures differ, with the stamp tool of size 1.\<close>

definition simStamp :: sim where
  "simStamp = sim0\<lparr>tool := (tool sim0)\<lparr>tool_type := Stamp, tool_size := 1\<rparr>,
                   textures := [blank3, seed3]\<rparr>"

text \<open>The engine as the constructor makes it, with resolution 512, on a field without
  chemical B, and the same engine with the brush at its largest size, 100.\<close>

definition blank512 :: texture where
  "blank512 = replicate 512 (replicate 512 cellA)"

definition sim512 :: sim where
  "sim512 = sim0\<lparr>resolution := 512, textures := [blank512, blank512]\<rparr>"

definition simLarge :: sim where
  "simLarge = sim512\<lparr>tool := (tool sim512)\<lparr>tool_size := 100\<rparr>\<rparr>"

section \<open>Properties\<close>

subsection \<open>Storage in an 8-bit texture\<close>

lemma unorm8_range: "0 \<le> unorm8 v \<and> unorm8 v \<le> 1"
proof -
  have c: "0 \<le> clamp v 0 1 * 255" "clamp v 0 1 * 255 \<le> 255"
    by (simp_all add: clamp_def)
  from round_mono[OF c(1)] have lo: "0 \<le> round (clamp v 0 1 * 255)" by simp
  from round_mono[OF c(2)] have hi: "round (clamp v 0 1 * 255) \<le> 255" by simp
  from lo hi show ?thesis by (simp add: unorm8_def)
qed

lemma unorm8_mono: "v \<le> w \<Longrightarrow> unorm8 v \<le> unorm8 w"
proof -
  assume "v \<le> w"
  then have "clamp v 0 1 * 255 \<le> clamp w 0 1 * 255" by (simp add: clamp_def min_def max_def)
  from round_mono[OF this] show ?thesis by (simp add: unorm8_def divide_right_mono)
qed

lemma unorm8_0: "unorm8 0 = 0"
  by (simp add: unorm8_def clamp_def)

lemma unorm8_1: "unorm8 1 = 1"
  by (simp add: unorm8_def clamp_def)

lemma unorm8_level: "k \<le> 255 \<Longrightarrow> unorm8 (real k / 255) = real k / 255"
  by (simp add: unorm8_def clamp_def min_def max_def)

lemma unorm8_idem: "unorm8 (unorm8 v) = unorm8 v"
proof -
  have c: "0 \<le> clamp v 0 1 * 255" "clamp v 0 1 * 255 \<le> 255"
    by (simp_all add: clamp_def)
  from round_mono[OF c(1)] have lo: "0 \<le> round (clamp v 0 1 * 255)" by simp
  from round_mono[OF c(2)] have hi: "round (clamp v 0 1 * 255) \<le> 255" by simp
  from lo hi have "nat (round (clamp v 0 1 * 255)) \<le> 255" by simp
  from unorm8_level[OF this] lo show ?thesis by (simp add: unorm8_def)
qed

lemma storeRGBA8_in01: "in01 (storeRGBA8 c)"
  by (simp add: in01_def storeRGBA8_def unorm8_range)

lemma storeRGBA8_texel8: "texel8 (storeRGBA8 c)"
  by (simp add: texel8_def storeRGBA8_def unorm8_idem)

lemma texel8_cells: "texel8 cellA" "texel8 cellB"
  by (simp_all add: texel8_def storeRGBA8_def cellA_def cellB_def unorm8_0 unorm8_1)

subsection \<open>Drawing and the ping-pong index\<close>

lemma drawArrays_nth:
  "x < R \<Longrightarrow> y < R \<Longrightarrow> drawArrays R frag ! y ! x = frag (int x) (int y)"
  by (simp add: drawArrays_def)

lemma drawArrays_all:
  "(\<And>x y. P (frag x y)) \<Longrightarrow> list_all (list_all P) (drawArrays R frag)"
  by (simp add: drawArrays_def list_all_iff)

lemma substep_wellformed: "wellformed s \<Longrightarrow> wellformed (substep s)"
  by (auto simp: wellformed_def substep_def Let_def)

lemma substep_current:
  "wellformed s \<Longrightarrow>
   current (substep s) =
     drawArrays (resolution s)
       (\<lambda>x y. storeRGBA8
          (simulationSource (current s) (resolution s) (feedRate (params s))
             (killRate (params s)) (diffusionA (params s)) (diffusionB (params s)) 1 0 x y))"
  by (auto simp: wellformed_def substep_def Let_def current_def)

lemma substep_field01: "wellformed s \<Longrightarrow> field01 (current (substep s))"
  by (simp add: substep_current field01_def drawArrays_all storeRGBA8_in01)

lemma substeps_wellformed: "wellformed s \<Longrightarrow> wellformed (substeps n s)"
  by (induction n arbitrary: s) (simp_all add: substep_wellformed)

lemma substeps_field01_pos: "wellformed s \<Longrightarrow> field01 (current (substeps (Suc n) s))"
proof (induction n arbitrary: s)
  case 0
  then show ?case by (simp add: substep_field01)
next
  case (Suc n)
  from Suc.prems have "wellformed (substep s)" by (rule substep_wellformed)
  from Suc.IH[OF this] show ?case by simp
qed

subsection \<open>The clamp invariant\<close>

text \<open>
  Claim C1. Every sub-step writes clamped values, so after one or more sub-steps every
  texel of the current texture has A and B within \<open>[0, 1]\<close>, whatever the parameters and
  whatever the field was; and a field that starts within \<open>[0, 1]\<close>, as every seeded field
  does, is within \<open>[0, 1]\<close> after any number of sub-steps, and after \<open>simulate\<close>.
\<close>

theorem clamp_invariant:
  assumes "wellformed s"
  shows "(0 < n \<longrightarrow> field01 (current (substeps n s)))
       \<and> (field01 (current s) \<longrightarrow>
            field01 (current (substeps n s)) \<and> field01 (current (simulate s)))"
proof -
  have pos: "field01 (current (substeps m s))" if "0 < m" for m
  proof -
    from that obtain k where "m = Suc k" by (cases m) auto
    with assms show ?thesis using substeps_field01_pos by blast
  qed
  have any: "field01 (current (substeps m s))" if "field01 (current s)" for m
  proof (cases m)
    case 0
    with that show ?thesis by simp
  next
    case (Suc k)
    then show ?thesis using pos[of m] by simp
  qed
  show ?thesis using pos any by (auto simp: simulate_def)
qed

theorem clamp_invariant_witness:
  "wellformed sim0 \<and> field01 (current sim0) \<and> field01 (current (substeps 2 sim0))
     \<and> field01 (current (simulate sim0))"
proof -
  have w: "wellformed sim0" by (simp add: wellformed_def sim0_def)
  have f: "field01 (current sim0)"
    by (simp add: field01_def current_def sim0_def seed3_def in01_def cellA_def cellB_def)
  from clamp_invariant[OF w, of 2] w f show ?thesis by simp
qed

subsection \<open>Pause\<close>

text \<open>
  Claim C10. While the simulation is paused (\<open>isRunning\<close> is false), \<open>simulate\<close> runs no
  sub-step and returns the state as it was: both textures and \<open>currentTexture\<close> are
  unchanged, for every field and every \<open>simSpeed\<close>.
\<close>

theorem paused_noop: "\<not> isRunning s \<Longrightarrow> simulate s = s"
  by (simp add: simulate_def)

theorem paused_noop_witness:
  "\<not> isRunning (togglePause sim0) \<and> simulate (togglePause sim0) = togglePause sim0"
  using paused_noop[of "togglePause sim0"] by (simp add: togglePause_def sim0_def)

subsection \<open>One sub-step, cell by cell\<close>

lemma wrap_index: "0 < R \<Longrightarrow> nat ((int x + int d - 1) mod int R) = (x + R + d - 1) mod R"
proof -
  assume R: "0 < R"
  have "int ((x + R + d - 1) mod R) = (int (x + R + d - 1)) mod int R"
    by (simp add: zmod_int)
  also have "int (x + R + d - 1) = int x + int d - 1 + int R"
    using R by (simp add: of_nat_diff)
  also have "(int x + int d - 1 + int R) mod int R = (int x + int d - 1) mod int R"
    by simp
  finally show ?thesis by (metis nat_int)
qed

lemma wrap_minus: "0 < R \<Longrightarrow> nat ((int x - 1) mod int R) = (x + R + 0 - 1) mod R"
  using wrap_index[of R x 0] by simp

lemma wrap_zero: "0 < R \<Longrightarrow> nat (int x mod int R) = (x + R + 1 - 1) mod R"
  using wrap_index[of R x 1] by simp

lemma wrap_plus: "0 < R \<Longrightarrow> nat ((int x + 1) mod int R) = (x + R + 2 - 1) mod R"
  using wrap_index[of R x 2] by (simp add: add.commute)

lemma spec_neighbour_centre: "x < R \<Longrightarrow> y < R \<Longrightarrow> spec_neighbour t R x y 1 1 = t ! y ! x"
  by (simp add: spec_neighbour_def)

lemma texture2D_own: "x < R \<Longrightarrow> y < R \<Longrightarrow> texture2D t R (int x) (int y) = t ! y ! x"
  by (simp add: texture2D_def)

lemma clamp_clamp01: "clamp v 0 1 = clamp01 v"
  by (simp add: clamp_def clamp01_def)

lemma simulationSource_spec:
  assumes "x < R" "y < R"
  shows "simulationSource t R (feedRate p) (killRate p) (diffusionA p) (diffusionB p) 1 u
           (int x) (int y)
       = \<lparr>red = spec_newA p t R x y, green = spec_newB p t R x y, blue = 0, alpha = 1\<rparr>"
proof -
  from assms have R: "0 < R" by simp
  have n: "texture2D t R (int x - 1) (int y) = spec_neighbour t R x y 0 1"
          "texture2D t R (int x + 1) (int y) = spec_neighbour t R x y 2 1"
          "texture2D t R (int x) (int y + 1) = spec_neighbour t R x y 1 2"
          "texture2D t R (int x) (int y - 1) = spec_neighbour t R x y 1 0"
          "texture2D t R (int x - 1) (int y + 1) = spec_neighbour t R x y 0 2"
          "texture2D t R (int x + 1) (int y + 1) = spec_neighbour t R x y 2 2"
          "texture2D t R (int x - 1) (int y - 1) = spec_neighbour t R x y 0 0"
          "texture2D t R (int x + 1) (int y - 1) = spec_neighbour t R x y 2 0"
          "texture2D t R (int x) (int y) = spec_neighbour t R x y 1 1"
    unfolding texture2D_def spec_neighbour_def wrap_minus[OF R] wrap_zero[OF R] wrap_plus[OF R]
    by (rule refl)+
  have c: "spec_neighbour t R x y 1 1 = t ! y ! x"
    using assms by (rule spec_neighbour_centre)
  show ?thesis
    unfolding simulationSource_def n Let_def spec_newA_def spec_newB_def spec_laplacian_def
      spec_gray_scott_def spec_dt_def clamp_clamp01 c
    by (simp add: vadd_def vsub_def vscale_def algebra_simps)
qed

lemma flip_index: "c < 2 \<Longrightarrow> 1 - c \<noteq> c \<and> 1 - c < (2::nat)"
  by arith

lemma substep_texel:
  assumes "wellformed s" "x < resolution s" "y < resolution s"
  shows "current (substep s) ! y ! x
      = storeRGBA8 \<lparr>red = spec_newA (params s) (current s) (resolution s) x y,
          green = spec_newB (params s) (current s) (resolution s) x y, blue = 0, alpha = 1\<rparr>"
  using assms by (simp add: substep_current drawArrays_nth simulationSource_spec)

text \<open>
  Claim C2, amended. A sub-step reads the current texture and computes, for every cell
  \<open>(x, y)\<close> of the grid, \<open>newA = clamp01(a + dt*(diffusionA*lapA + da))\<close> and
  \<open>newB = clamp01(b + dt*(diffusionB*lapB + db))\<close> with \<open>dt = 1\<close>, where \<open>lapA\<close>, \<open>lapB\<close>
  are the 9-point Laplacians over the toroidal neighbourhood and \<open>(da, db)\<close> is the
  Gray-Scott reaction. What it writes is \<open>newA\<close> and \<open>newB\<close> rounded to the nearest level
  \<open>k/255\<close> of the 8-bit texture. The result goes into the texture that was the scratch
  one, which becomes current; the texture that was current is left as it was.
\<close>

theorem substep_cell:
  assumes "wellformed s" "x < resolution s" "y < resolution s"
  shows "red (current (substep s) ! y ! x)
           = unorm8 (spec_newA (params s) (current s) (resolution s) x y)
       \<and> green (current (substep s) ! y ! x)
           = unorm8 (spec_newB (params s) (current s) (resolution s) x y)
       \<and> current (substep s) = textures (substep s) ! (1 - currentTexture s)
       \<and> scratch (substep s) = current s
       \<and> currentTexture (substep s) = 1 - currentTexture s"
proof -
  note cell = substep_texel[OF assms]
  have idx: "currentTexture (substep s) = 1 - currentTexture s"
    by (simp add: substep_def Let_def)
  have old: "scratch (substep s) = current s"
  proof -
    from assms(1) have "1 - currentTexture s \<noteq> currentTexture s" "currentTexture s < 2"
      using flip_index[of "currentTexture s"] by (simp_all add: wellformed_def)
    then show ?thesis
      by (simp add: substep_def Let_def scratch_def current_def)
  qed
  show ?thesis using cell idx old by (simp add: current_def storeRGBA8_def)
qed

lemma sim0_newA_centre:
  "spec_newA (params sim0) (current sim0) (resolution sim0) (Suc 0) (Suc 0) = 0"
  by (simp add: spec_newA_def spec_laplacian_def spec_neighbour_def spec_gray_scott_def
      spec_dt_def sim0_def current_def seed3_def cellA_def cellB_def clamp01_def)

lemma sim0_newB_centre:
  "spec_newB (params sim0) (current sim0) (resolution sim0) (Suc 0) (Suc 0) = 1"
  by (simp add: spec_newB_def spec_laplacian_def spec_neighbour_def spec_gray_scott_def
      spec_dt_def sim0_def current_def seed3_def cellA_def cellB_def clamp01_def)

lemma sim0_newB_edge:
  "spec_newB (params sim0) (current sim0) (resolution sim0) (Suc 0) 0 = 21 / 1000"
  by (simp add: spec_newB_def spec_laplacian_def spec_neighbour_def spec_gray_scott_def
      spec_dt_def sim0_def current_def seed3_def cellA_def cellB_def clamp01_def)

lemma unorm8_21: "unorm8 (21 / 1000) = 5 / 255"
proof -
  have "round (5355 / 1000 :: real) = 5" by (rule round_unique) simp_all
  then show ?thesis by (simp add: unorm8_def clamp_def)
qed

theorem substep_cell_witness:
  "wellformed sim0 \<and> (1::nat) < resolution sim0 \<and> (0::nat) < resolution sim0
   \<and> red (current (substep sim0) ! 1 ! 1) = 0 \<and> green (current (substep sim0) ! 1 ! 1) = 1
   \<and> green (current (substep sim0) ! 0 ! 1) = 5 / 255
   \<and> scratch (substep sim0) = current sim0 \<and> currentTexture (substep sim0) = 1"
proof -
  have w: "wellformed sim0" by (simp add: wellformed_def sim0_def)
  have r: "(1::nat) < resolution sim0" "(0::nat) < resolution sim0" by (simp_all add: sim0_def)
  have c: "currentTexture sim0 = 0" by (simp add: sim0_def)
  note t = substep_cell[OF w r(1) r(1)]
  note e = substep_cell[OF w r(1) r(2)]
  have 1: "red (current (substep sim0) ! 1 ! 1) = 0"
    using t[THEN conjunct1] by (simp add: sim0_newA_centre unorm8_0)
  have 2: "green (current (substep sim0) ! 1 ! 1) = 1"
    using t[THEN conjunct2, THEN conjunct1] by (simp add: sim0_newB_centre unorm8_1)
  have 3: "green (current (substep sim0) ! 0 ! 1) = 5 / 255"
    using e[THEN conjunct2, THEN conjunct1] by (simp add: sim0_newB_edge unorm8_21)
  have 4: "scratch (substep sim0) = current sim0" using t by blast
  have 5: "currentTexture (substep sim0) = 1" using t c by simp
  from w r 1 2 3 4 5 show ?thesis by blast
qed

text \<open>
  Claim C2, as stated, fails: the scratch buffer does not receive \<open>newB\<close> itself. On the
  seeded 3 by 3 field the cell \<open>(1, 0)\<close> below the seed has \<open>newB = 0.105 * 0.2 = 0.021\<close>,
  and the texture holds \<open>5/255\<close> after the sub-step.
\<close>

theorem substep_counterexample:
  "spec_newB (params sim0) (current sim0) (resolution sim0) 1 0 = 21 / 1000
   \<and> green (current (substep sim0) ! 0 ! 1) = 5 / 255
   \<and> green (current (substep sim0) ! 0 ! 1)
       \<noteq> spec_newB (params sim0) (current sim0) (resolution sim0) 1 0"
proof -
  have w: "wellformed sim0" by (simp add: wellformed_def sim0_def)
  have r: "(1::nat) < resolution sim0" "(0::nat) < resolution sim0" by (simp_all add: sim0_def)
  have v: "green (current (substep sim0) ! 0 ! 1) = 5 / 255"
    using substep_texel[OF w r] by (simp add: storeRGBA8_def sim0_newB_edge unorm8_21)
  from v sim0_newB_edge show ?thesis by simp
qed

subsection \<open>The model selector and the stepper\<close>

lemma substep_systemSelect: "substep (systemSelect s m) = systemSelect (substep s) m"
  by (simp add: substep_def systemSelect_def Let_def)

lemma substeps_systemSelect: "substeps n (systemSelect s m) = systemSelect (substeps n s) m"
  by (induction n arbitrary: s) (simp_all add: substep_systemSelect)

text \<open>
  Claim C4. The claim asks for a reaction term chosen by the model. In the code the
  shader has one equation set: its output is the same for every value of \<open>u_system\<close>, and
  selecting another model changes nothing in what \<open>simulate\<close> computes but the stored
  \<open>system\<close> field itself, so no two models ever produce different reaction rates.
\<close>

theorem system_never_dispatched:
  "simulationSource t R f k da db dt u x y = simulationSource t R f k da db dt u' x y
   \<and> simulate (systemSelect s m) = systemSelect (simulate s) m
   \<and> textures (simulate (systemSelect s m)) = textures (simulate s)"
proof -
  have 1: "simulationSource t R f k da db dt u x y = simulationSource t R f k da db dt u' x y"
    by (simp add: simulationSource_def)
  have 2: "simulate (systemSelect s m) = systemSelect (simulate s) m"
    by (simp add: simulate_def substeps_systemSelect) (simp add: systemSelect_def)
  have 3: "textures (systemSelect (simulate s) m) = textures (simulate s)"
    by (simp add: systemSelect_def)
  from 1 2 3 show ?thesis by simp
qed

subsection \<open>The parameter domain\<close>

text \<open>The journey clamps what it publishes: whenever \<open>updateJourney\<close> goes past its guard,
  the stored feed and kill rates are in their domain.\<close>

lemma publish_domain: "inDomain (params (publish s f k))"
  by (simp add: publish_def inDomain_def max_def min_def)

lemma updateJourney_domain:
  assumes "active (journey s)" "journey_type (journey s) \<noteq> JNone"
  shows "inDomain (params (updateJourney s dt r0 r1 r2))"
proof (cases "journey_type (journey s)")
  case JNone
  with assms show ?thesis by simp
next
  case Linear
  with assms show ?thesis
    unfolding updateJourney_def Let_def by (simp add: publish_domain)
next
  case Circular
  with assms show ?thesis
    unfolding updateJourney_def Let_def by (simp add: publish_domain)
next
  case Figure8
  with assms show ?thesis
    unfolding updateJourney_def Let_def by (simp add: publish_domain)
next
  case Random
  with assms show ?thesis
    unfolding updateJourney_def Let_def by (simp add: publish_domain)
qed

text \<open>
  Claim C3. The claim asks that a manual set with \<open>F = -1\<close> and \<open>K = 10\<close> store \<open>F = 0\<close> and
  \<open>K = 0.08\<close>. In the code the slider handlers and \<open>loadFromURL\<close> store the raw numbers:
  after either, the feed rate is \<open>-1\<close> and the kill rate is \<open>10\<close>.
\<close>

theorem manual_set_unclamped:
  "feedRate (params (sliderInput (sliderInput s FeedRateSlider (- 1)) KillRateSlider 10)) = - 1
   \<and> killRate (params (sliderInput (sliderInput s FeedRateSlider (- 1)) KillRateSlider 10)) = 10
   \<and> feedRate (params (loadFromURL s (Some (- 1)) (Some 10))) = - 1
   \<and> killRate (params (loadFromURL s (Some (- 1)) (Some 10))) = 10"
  by (simp add: loadFromURL_def)

subsection \<open>Eased transitions\<close>

lemma progressAt_done: "1000 \<le> now - st \<Longrightarrow> progressAt st now = 1"
  by (simp add: progressAt_def min_def)

lemma progressAt_le1: "progressAt st now \<le> 1"
  by (simp add: progressAt_def)

lemma progressAt_mono: "n1 \<le> n2 \<Longrightarrow> progressAt st n1 \<le> progressAt st n2"
  by (simp add: progressAt_def Let_def min_def divide_right_mono)

lemma progressAt_stop: "\<not> progressAt st n < 1 \<Longrightarrow> n \<le> m \<Longrightarrow> progressAt st m = 1"
  using progressAt_mono[of n m st] progressAt_le1[of st m] by simp

lemma easedAt_done: "progressAt st now = 1 \<Longrightarrow> easedAt st now = 1"
  by (simp add: easedAt_def)

lemma easedAt_mono: "n1 \<le> n2 \<Longrightarrow> easedAt st n1 \<le> easedAt st n2"
proof -
  assume le: "n1 \<le> n2"
  have "0 \<le> 1 - progressAt st n2" using progressAt_le1[of st n2] by simp
  moreover have "1 - progressAt st n2 \<le> 1 - progressAt st n1"
    using progressAt_mono[OF le, of st] by simp
  ultimately have "(1 - progressAt st n2) ^ 3 \<le> (1 - progressAt st n1) ^ 3"
    by (rule power_mono[rotated])
  then show ?thesis by (simp add: easedAt_def)
qed

lemma easedAt_le1: "easedAt st now \<le> 1"
proof -
  have "0 \<le> 1 - progressAt st now" using progressAt_le1[of st now] by simp
  then have "0 \<le> (1 - progressAt st now) ^ 3" by simp
  then show ?thesis by (simp add: easedAt_def)
qed

lemma animateFrame_params:
  "feedRate (params (animateFrame sF sK tF tK st now s)) = sF + (tF - sF) * easedAt st now"
  "killRate (params (animateFrame sF sK tF tK st now s)) = sK + (tK - sK) * easedAt st now"
  by (simp_all add: animateFrame_def Let_def)

lemma animateLoop_last:
  "sorted nows \<Longrightarrow> nows \<noteq> [] \<Longrightarrow>
   feedRate (params (animateLoop sF sK tF tK st nows s)) = sF + (tF - sF) * easedAt st (last nows)
   \<and> killRate (params (animateLoop sF sK tF tK st nows s)) = sK + (tK - sK) * easedAt st (last nows)"
proof (induction nows arbitrary: s)
  case Nil
  then show ?case by simp
next
  case (Cons now nows)
  show ?case
  proof (cases "progressAt st now < 1")
    case True
    show ?thesis
    proof (cases "nows = []")
      case True
      then show ?thesis by (simp add: Let_def animateFrame_params)
    next
      case False
      from Cons.prems have "sorted nows" by simp
      from Cons.IH[OF this False] True False show ?thesis by (simp add: Let_def)
    qed
  next
    case False
    from Cons.prems have "now \<le> last (now # nows)" by (cases "nows = []") auto
    from progressAt_stop[OF False this] have "easedAt st (last (now # nows)) = 1"
      by (rule easedAt_done)
    moreover from False have "progressAt st now = 1" using progressAt_le1[of st now] by simp
    then have "easedAt st now = 1" by (rule easedAt_done)
    ultimately show ?thesis using False by (simp add: Let_def animateFrame_params del: last.simps)
  qed
qed

lemma animateLoop_done:
  "\<exists>now\<in>set nows. 1000 \<le> now - st \<Longrightarrow>
   feedRate (params (animateLoop sF sK tF tK st nows s)) = tF
   \<and> killRate (params (animateLoop sF sK tF tK st nows s)) = tK"
proof (induction nows arbitrary: s)
  case Nil
  then show ?case by simp
next
  case (Cons now nows)
  show ?case
  proof (cases "progressAt st now < 1")
    case False
    then have "progressAt st now = 1" using progressAt_le1[of st now] by simp
    then have "easedAt st now = 1" by (rule easedAt_done)
    with False show ?thesis by (simp add: Let_def animateFrame_params)
  next
    case True
    have "\<not> 1000 \<le> now - st"
    proof
      assume "1000 \<le> now - st"
      from progressAt_done[OF this] True show False by simp
    qed
    with Cons.prems have "\<exists>n\<in>set nows. 1000 \<le> n - st" by auto
    from Cons.IH[OF this] True show ?thesis by (simp add: Let_def)
  qed
qed

lemma animateLoop_stops:
  "1000 \<le> now - st \<Longrightarrow>
   animateLoop sF sK tF tK st (pre @ now # post) s = animateLoop sF sK tF tK st (pre @ [now]) s"
proof (induction pre arbitrary: s)
  case Nil
  then have "\<not> progressAt st now < 1" by (simp add: progressAt_done)
  then show ?case by (simp add: Let_def)
next
  case (Cons p pre)
  then show ?case by (simp add: Let_def)
qed

text \<open>
  Claim C8. \<open>animateToParams\<close> drives \<open>(F, K)\<close> from the values at the call to the target
  with \<open>eased = 1 - (1 - progress)^3\<close>, sampled once per frame: after the frames of any
  non-empty, non-decreasing run of clock readings the parameters are the interpolation at
  the last reading; once a reading is at least 1000 ms after the start they are exactly
  the target, and the closure does not run again after such a reading; and the eased
  fraction never decreases from one reading to a later one and never exceeds 1.
\<close>

theorem ease_transition:
  "(sorted nows \<and> nows \<noteq> [] \<longrightarrow>
      feedRate (params (animateToParams s tF tK st nows))
        = feedRate (params s) + (tF - feedRate (params s)) * easedAt st (last nows)
      \<and> killRate (params (animateToParams s tF tK st nows))
        = killRate (params s) + (tK - killRate (params s)) * easedAt st (last nows))
   \<and> ((\<exists>now\<in>set nows. 1000 \<le> now - st) \<longrightarrow>
      feedRate (params (animateToParams s tF tK st nows)) = tF
      \<and> killRate (params (animateToParams s tF tK st nows)) = tK)
   \<and> (1000 \<le> now - st \<longrightarrow>
      animateToParams s tF tK st (pre @ now # post) = animateToParams s tF tK st (pre @ [now]))
   \<and> easedAt st now = 1 - (1 - min 1 ((now - st) / 1000)) ^ 3
   \<and> (earlier \<le> later \<longrightarrow>
        easedAt st earlier \<le> easedAt st later \<and> easedAt st later \<le> 1)"
  using animateLoop_last[of nows "feedRate (params s)" "killRate (params s)" tF tK st s]
    animateLoop_done[of nows st "feedRate (params s)" "killRate (params s)" tF tK s]
    animateLoop_stops[of now st "feedRate (params s)" "killRate (params s)" tF tK pre post s]
    easedAt_mono[of earlier later st] easedAt_le1[of st later]
  by (simp add: animateToParams_def easedAt_def progressAt_def)

theorem ease_transition_witness:
  "feedRate (params (animateToParams simE (6 / 100) (7 / 100) 0 [0, 16, 500])) = 55 / 1000
   \<and> killRate (params (animateToParams simE (6 / 100) (7 / 100) 0 [0, 16, 500])) = 65 / 1000
   \<and> feedRate (params (animateToParams simE (6 / 100) (7 / 100) 0 [0, 16, 500, 1000])) = 6 / 100
   \<and> killRate (params (animateToParams simE (6 / 100) (7 / 100) 0 [0, 16, 500, 1000])) = 7 / 100
   \<and> animateToParams simE (6 / 100) (7 / 100) 0 [0, 16, 500, 1000, 1016]
       = animateToParams simE (6 / 100) (7 / 100) 0 [0, 16, 500, 1000]
   \<and> easedAt 0 16 \<le> easedAt 0 500"
proof -
  have p: "feedRate (params simE) = 2 / 100" "killRate (params simE) = 3 / 100"
    by (simp_all add: simE_def)
  have e: "easedAt 0 500 = 7 / 8"
    by (simp add: easedAt_def progressAt_def power3_eq_cube)
  show ?thesis
    using ease_transition[where nows = "[0, 16, 500]" and s = simE and tF = "6 / 100"
        and tK = "7 / 100" and st = 0 and earlier = 16 and later = 500]
      ease_transition[where nows = "[0, 16, 500, 1000]" and s = simE and tF = "6 / 100"
        and tK = "7 / 100" and st = 0 and now = 1000 and pre = "[0, 16, 500]"
        and post = "[1016]"]
    by (simp add: p e)
qed

subsection \<open>The colorizer\<close>

text \<open>
  Claim C9, as stated, fails: the shader multiplies by the brightness first and clamps
  afterwards. With contrast 2 and brightness 0.5 a texel with \<open>B = 1\<close> is drawn with mix
  factor \<open>clamp01(1.5 * 0.5) = 0.75\<close>, where the claim's formula gives
  \<open>clamp01(1.5) * 0.5 = 0.5\<close>.
\<close>

theorem colorizer_counterexample:
  "red (render simV ! 1 ! 1) = 3 / 4
   \<and> mix (0 / 255) (255 / 255)
        (spec_value (green (current simV ! 1 ! 1)) (contrast (visual simV))
           (brightness (visual simV))) = 1 / 2"
proof -
  have 1: "red (render simV ! 1 ! 1) = 3 / 4"
    by (simp add: render_def simV_def sim0_def drawArrays_nth renderSource_def texture2D_def
        seed3_def cellA_def cellB_def clamp_def mix_def Let_def)
  have 2: "mix (0 / 255) (255 / 255)
        (spec_value (green (current simV ! 1 ! 1)) (contrast (visual simV))
           (brightness (visual simV))) = 1 / 2"
    by (simp add: simV_def sim0_def current_def seed3_def cellA_def cellB_def spec_value_def
        clamp01_def mix_def)
  from 1 2 show ?thesis by simp
qed

text \<open>
  Claim C9, amended. The frame is a function of the state alone and of channel B alone:
  every pixel is the linear interpolation between the two endpoint colours of the scheme
  with mix factor \<open>clamp01(((value - 0.5) * contrast + 0.5) * brightness)\<close>, the clamp
  applied after the multiplication by the brightness.
\<close>

theorem colorizer:
  assumes "x < resolution s" "y < resolution s"
    and "colorSchemes (colorScheme (visual s)) = ((r1, g1, b1), (r2, g2, b2))"
  shows "render s ! y ! x =
    (let value' = clamp01 (((green (current s ! y ! x) - 5 / 10) * contrast (visual s) + 5 / 10)
                     * brightness (visual s))
     in \<lparr>red = mix (r1 / 255) (r2 / 255) value', green = mix (g1 / 255) (g2 / 255) value',
         blue = mix (b1 / 255) (b2 / 255) value', alpha = 1\<rparr>)"
  using assms
  by (simp add: render_def drawArrays_nth renderSource_def texture2D_own current_def
      clamp_clamp01 Let_def)

theorem colorizer_witness:
  "(1::nat) < resolution sim0
   \<and> colorSchemes (colorScheme (visual sim0)) = ((0, 0, 0), (255, 255, 255))
   \<and> render sim0 ! 1 ! 1 = \<lparr>red = 1, green = 1, blue = 1, alpha = 1\<rparr>
   \<and> render sim0 ! 0 ! 1 = \<lparr>red = 0, green = 0, blue = 0, alpha = 1\<rparr>"
proof -
  have r: "(1::nat) < resolution sim0" "(0::nat) < resolution sim0" by (simp_all add: sim0_def)
  have c: "colorSchemes (colorScheme (visual sim0)) = ((0, 0, 0), (255, 255, 255))"
    by (simp add: sim0_def)
  have g: "green (current sim0 ! Suc 0 ! Suc 0) = 1" "green (current sim0 ! 0 ! Suc 0) = 0"
    "contrast (visual sim0) = 1" "brightness (visual sim0) = 1"
    by (simp_all add: sim0_def current_def seed3_def cellA_def cellB_def)
  from colorizer[OF r(1) r(1) c] colorizer[OF r(1) r(2) c] r c
  show ?thesis by (simp add: g clamp01_def mix_def Let_def)
qed
subsection \<open>The brush\<close>

lemma applyBrush_current:
  "wellformed s \<Longrightarrow>
   current (applyBrush s px py) =
     drawArrays (resolution s)
       (\<lambda>cx cy. storeRGBA8
          (brushSource (current s) (resolution s) (px, real (resolution s) - py)
             (tool_size (tool s)) (tool_strength (tool s))
             (if tool_chemical (tool s) = ChemB then 1 else 0) cx cy))"
  by (auto simp: wellformed_def applyBrush_def Let_def current_def)

lemma applyBrush_cell:
  assumes "wellformed s" "x < resolution s" "y < resolution s"
  shows "current (applyBrush s px py) ! y ! x =
    storeRGBA8
      (let c = current s ! y ! x; d = brushDist s px py x y
       in if d < tool_size (tool s) then
            (if tool_chemical (tool s) = ChemB
             then c\<lparr>green := min 1 (green c
                      + brushFalloff d (tool_size (tool s)) (tool_strength (tool s)))\<rparr>
             else c\<lparr>green := max 0 (green c
                      - brushFalloff d (tool_size (tool s)) (tool_strength (tool s)))\<rparr>)
          else c)"
  using assms
  by (simp add: applyBrush_current drawArrays_nth brushSource_def texture2D_own Let_def
      brushDist_def)

lemma texel8_channels:
  assumes "texel8 c"
  shows "unorm8 (red c) = red c" "unorm8 (green c) = green c"
    "unorm8 (blue c) = blue c" "unorm8 (alpha c) = alpha c"
proof -
  from assms have e: "storeRGBA8 c = c" by (simp add: texel8_def)
  have "red (storeRGBA8 c) = unorm8 (red c)" "green (storeRGBA8 c) = unorm8 (green c)"
    "blue (storeRGBA8 c) = unorm8 (blue c)" "alpha (storeRGBA8 c) = unorm8 (alpha c)"
    by (simp_all add: storeRGBA8_def)
  with e show "unorm8 (red c) = red c" "unorm8 (green c) = green c"
    "unorm8 (blue c) = blue c" "unorm8 (alpha c) = alpha c"
    by simp_all
qed

lemma brushFalloff_sq: "brushFalloff d r k = (1 - d / r)\<^sup>2 * k"
  by (simp add: brushFalloff_def Let_def power2_eq_square)

lemma brushFalloff_nonneg: "0 \<le> k \<Longrightarrow> 0 \<le> brushFalloff d r k"
  by (simp add: brushFalloff_sq)

lemma brushFalloff_decreasing:
  assumes "0 \<le> d1" "d1 < d2" "d2 < r"
  shows "brushFalloff d2 r 1 < brushFalloff d1 r 1"
proof -
  from assms have r: "0 < r" by simp
  have a: "0 \<le> 1 - d2 / r" using assms r by (simp add: field_simps)
  have b: "1 - d2 / r < 1 - d1 / r" using assms r by (simp add: divide_strict_right_mono)
  from power_strict_mono[OF b a, of 2] have "(1 - d2 / r)\<^sup>2 < (1 - d1 / r)\<^sup>2" by simp
  then show ?thesis by (simp add: brushFalloff_sq)
qed

lemma brushFalloff_le1:
  assumes "0 \<le> d" "d < r"
  shows "brushFalloff d r 1 \<le> 1"
proof -
  from assms have r: "0 < r" by simp
  have "0 \<le> 1 - d / r" "1 - d / r \<le> 1" using assms r by (simp_all add: field_simps)
  then have "(1 - d / r)\<^sup>2 \<le> 1\<^sup>2" by (intro power_mono) auto
  then show ?thesis by (simp add: brushFalloff_sq)
qed

lemma brushDist_nonneg: "0 \<le> brushDist s px py x y"
  by (simp add: brushDist_def distance_def)

lemma brushDist_row:
  "real (resolution s) - py = real y + 1 / 2 \<Longrightarrow>
   brushDist s px py x y = \<bar>real x + 1 / 2 - px\<bar>"
  by (simp add: brushDist_def distance_def)

text \<open>
  Claim C5, amended. \<open>applyBrush\<close> computes, for every cell, the plain Euclidean distance
  \<open>dist\<close> between the cell's centre and the brush position, without wrap. In a cell with
  \<open>dist < size\<close> the amount \<open>falloff = (1 - dist/size)^2 * strength\<close> is added to channel B,
  capped at 1, when chemical B is selected, and subtracted from channel B, floored at 0,
  when chemical A is selected, and the result is stored rounded to the nearest level
  \<open>k/255\<close> of the 8-bit texture. Channel A of every cell, and every cell with
  \<open>dist \<ge> size\<close>, is unchanged (the texture holding 8-bit texels); every cell written is
  within \<open>[0, 1]\<close>.
\<close>

theorem brush_cell:
  assumes "wellformed s" "x < resolution s" "y < resolution s"
  shows
    "(let c = current s ! y ! x;
          c' = current (applyBrush s px py) ! y ! x;
          d = brushDist s px py x y;
          size = tool_size (tool s);
          falloff = (1 - d / size)\<^sup>2 * tool_strength (tool s)
      in (texel8 c \<longrightarrow> red c' = red c \<and> blue c' = blue c \<and> alpha c' = alpha c)
         \<and> (d < size \<and> tool_chemical (tool s) = ChemB \<longrightarrow>
               green c' = unorm8 (min 1 (green c + falloff)))
         \<and> (d < size \<and> tool_chemical (tool s) = ChemA \<longrightarrow>
               green c' = unorm8 (max 0 (green c - falloff)))
         \<and> (size \<le> d \<and> texel8 c \<longrightarrow> c' = c)
         \<and> in01 c')"
proof -
  let ?c = "current s ! y ! x"
  let ?d = "brushDist s px py x y"
  let ?f = "brushFalloff ?d (tool_size (tool s)) (tool_strength (tool s))"
  note cell = applyBrush_cell[OF assms, of px py, unfolded Let_def]
  have f: "?f = (1 - ?d / tool_size (tool s))\<^sup>2 * tool_strength (tool s)"
    by (rule brushFalloff_sq)
  have chem: "tool_chemical (tool s) = ChemA \<longleftrightarrow> tool_chemical (tool s) \<noteq> ChemB"
    by (cases "tool_chemical (tool s)") auto
  have other: "red (current (applyBrush s px py) ! y ! x) = red ?c
      \<and> blue (current (applyBrush s px py) ! y ! x) = blue ?c
      \<and> alpha (current (applyBrush s px py) ! y ! x) = alpha ?c" if "texel8 ?c"
    using texel8_channels[OF that] by (simp add: cell storeRGBA8_def)
  have gB: "green (current (applyBrush s px py) ! y ! x) = unorm8 (min 1 (green ?c + ?f))"
    if "?d < tool_size (tool s)" "tool_chemical (tool s) = ChemB"
    using that by (simp add: cell storeRGBA8_def)
  have gA: "green (current (applyBrush s px py) ! y ! x) = unorm8 (max 0 (green ?c - ?f))"
    if "?d < tool_size (tool s)" "tool_chemical (tool s) = ChemA"
    using that by (simp add: cell storeRGBA8_def chem)
  have out: "current (applyBrush s px py) ! y ! x = ?c"
    if "tool_size (tool s) \<le> ?d" "texel8 ?c"
    using that by (simp add: cell texel8_def)
  have rng: "in01 (current (applyBrush s px py) ! y ! x)"
    by (simp only: cell storeRGBA8_in01)
  show ?thesis
  proof (unfold Let_def f[symmetric], intro conjI impI, goal_cases)
    case 1 then show ?case using other by blast
  next
    case 2 then show ?case using other by blast
  next
    case 3 then show ?case using other by blast
  next
    case 4 then show ?case using gB by blast
  next
    case 5 then show ?case using gA by blast
  next
    case 6 then show ?case using out by blast
  next
    case 7 show ?case by (rule rng)
  qed
qed

lemma wellformed_examples:
  "wellformed simSmallA" "wellformed simSmallB" "wellformed simBlank" "wellformed sim0"
  "wellformed simLarge"
  by (simp_all add: wellformed_def simSmallA_def simSmallB_def simBlank_def sim0_def
      simLarge_def sim512_def)

lemma unorm8_841: "unorm8 (841 / 900) = 238 / 255"
proof -
  have "round (841 / 900 * 255 :: real) = 238" by (rule round_unique) simp_all
  then show ?thesis by (simp add: unorm8_def clamp_def)
qed

text \<open>
  Claim C5, as stated, fails in two ways. With chemical A selected the brush on the
  centre cell of the seeded field lowers channel B from 1 to 0 and leaves channel A as it
  was: the selected channel is not the one edited. And a brush of size 1.2 centred on
  cell \<open>(0, 0)\<close> leaves cell \<open>(2, 0)\<close> unchanged although its distance around the torus
  is 1: the shader's distance is 2.
\<close>

theorem brush_counterexample:
  "green (current simSmallA ! 1 ! 1) = 1
   \<and> green (current (applyBrush simSmallA (3 / 2) (3 / 2)) ! 1 ! 1) = 0
   \<and> red (current (applyBrush simSmallA (3 / 2) (3 / 2)) ! 1 ! 1) = red (current simSmallA ! 1 ! 1)
   \<and> spec_torus_distance 3 (5 / 2, 1 / 2) (1 / 2, 1 / 2) < tool_size (tool simSmallB)
   \<and> current (applyBrush simSmallB (1 / 2) (5 / 2)) ! 0 ! 2 = current simSmallB ! 0 ! 2"
proof -
  have 1: "current simSmallA ! Suc 0 ! Suc 0 = cellB"
    by (simp add: simSmallA_def sim0_def current_def seed3_def)
  have dA: "brushDist simSmallA (3 / 2) (3 / 2) (Suc 0) (Suc 0) = 0"
    by (simp add: brushDist_def distance_def simSmallA_def sim0_def)
  have rA: "(1::nat) < resolution simSmallA" by (simp add: simSmallA_def sim0_def)
  have tA: "tool_size (tool simSmallA) = 12 / 10" "tool_chemical (tool simSmallA) = ChemA"
    "tool_strength (tool simSmallA) = 1"
    by (simp_all add: simSmallA_def sim0_def)
  have cellA': "current (applyBrush simSmallA (3 / 2) (3 / 2)) ! 1 ! 1 = cellA"
    using applyBrush_cell[OF wellformed_examples(1) rA rA, of "3 / 2" "3 / 2"]
    by (simp add: 1 dA tA brushFalloff_def Let_def storeRGBA8_def cellA_def cellB_def
        unorm8_0 unorm8_1)
  have dB: "brushDist simSmallB (1 / 2) (5 / 2) 2 0 = 2"
    by (simp add: brushDist_def distance_def simSmallB_def sim0_def)
  have rB: "(2::nat) < resolution simSmallB" "(0::nat) < resolution simSmallB"
    by (simp_all add: simSmallB_def sim0_def)
  have tB: "tool_size (tool simSmallB) = 12 / 10" by (simp add: simSmallB_def sim0_def)
  have 2: "current simSmallB ! 0 ! 2 = cellA"
    by (simp add: simSmallB_def sim0_def current_def seed3_def)
  have cellB': "current (applyBrush simSmallB (1 / 2) (5 / 2)) ! 0 ! 2 = current simSmallB ! 0 ! 2"
    using applyBrush_cell[OF wellformed_examples(2) rB, of "1 / 2" "5 / 2"] texel8_cells(1)
    by (simp add: dB tB Let_def 2 texel8_def)
  have tor: "spec_torus_distance 3 (5 / 2, 1 / 2) (1 / 2, 1 / 2) = 1"
    by (simp add: spec_torus_distance_def spec_wrap_delta_def)
  from 1 cellA' cellB' tor tB show ?thesis by (simp add: cellA_def cellB_def)
qed

theorem brush_cell_witness:
  "wellformed sim0 \<and> (2::nat) < resolution sim0 \<and> texel8 (current sim0 ! 1 ! 2)
   \<and> green (current (applyBrush sim0 (3 / 2) (3 / 2)) ! 1 ! 2) = 238 / 255
   \<and> red (current (applyBrush sim0 (3 / 2) (3 / 2)) ! 1 ! 2) = 1
   \<and> green (current (applyBrush simSmallA (3 / 2) (3 / 2)) ! 1 ! 1) = 0
   \<and> current (applyBrush simSmallB (1 / 2) (5 / 2)) ! 0 ! 2 = current simSmallB ! 0 ! 2"
proof -
  have r0: "(2::nat) < resolution sim0" "(1::nat) < resolution sim0" by (simp_all add: sim0_def)
  have d0: "brushDist sim0 (3 / 2) (3 / 2) 2 (Suc 0) = 1"
    by (simp add: brushDist_def distance_def sim0_def)
  have t0: "tool_size (tool sim0) = 30" "tool_chemical (tool sim0) = ChemB"
    "tool_strength (tool sim0) = 1" "current sim0 ! Suc 0 ! 2 = cellA"
    by (simp_all add: sim0_def current_def seed3_def)
  have x0: "texel8 (current sim0 ! 1 ! 2)" using t0(4) texel8_cells(1) by simp
  have f0: "(29 / 30 :: real)\<^sup>2 = 841 / 900" by (simp add: power2_eq_square)
  have a: "green (current (applyBrush sim0 (3 / 2) (3 / 2)) ! 1 ! 2) = 238 / 255
         \<and> red (current (applyBrush sim0 (3 / 2) (3 / 2)) ! 1 ! 2) = 1"
    using brush_cell[OF wellformed_examples(4) r0, of "3 / 2" "3 / 2"] texel8_cells(1)
    by (simp add: Let_def d0 t0 cellA_def f0 unorm8_841)
  have rA: "(1::nat) < resolution simSmallA" by (simp add: simSmallA_def sim0_def)
  have dA: "brushDist simSmallA (3 / 2) (3 / 2) (Suc 0) (Suc 0) = 0"
    by (simp add: brushDist_def distance_def simSmallA_def sim0_def)
  have tA: "tool_size (tool simSmallA) = 12 / 10" "tool_chemical (tool simSmallA) = ChemA"
    "tool_strength (tool simSmallA) = 1" "current simSmallA ! Suc 0 ! Suc 0 = cellB"
    by (simp_all add: simSmallA_def sim0_def current_def seed3_def)
  have b: "green (current (applyBrush simSmallA (3 / 2) (3 / 2)) ! 1 ! 1) = 0"
    using brush_cell[OF wellformed_examples(1) rA rA, of "3 / 2" "3 / 2"]
    by (simp add: Let_def dA tA cellB_def unorm8_0)
  have rB: "(2::nat) < resolution simSmallB" "(0::nat) < resolution simSmallB"
    by (simp_all add: simSmallB_def sim0_def)
  have dB: "brushDist simSmallB (1 / 2) (5 / 2) 2 0 = 2"
    by (simp add: brushDist_def distance_def simSmallB_def sim0_def)
  have tB: "tool_size (tool simSmallB) = 12 / 10" "current simSmallB ! 0 ! 2 = cellA"
    by (simp_all add: simSmallB_def sim0_def current_def seed3_def)
  have c: "current (applyBrush simSmallB (1 / 2) (5 / 2)) ! 0 ! 2 = current simSmallB ! 0 ! 2"
    using brush_cell[OF wellformed_examples(2) rB, of "1 / 2" "5 / 2"] texel8_cells(1)
    by (simp add: Let_def dB tB)
  from wellformed_examples(4) r0(1) x0 a b c show ?thesis by simp
qed

subsection \<open>The brush at the centre of the grid\<close>

lemma sqrt_half_bounds: "7 / 10 < sqrt (1 / 2 :: real)" "sqrt (1 / 2 :: real) < 71 / 100"
proof -
  show "7 / 10 < sqrt (1 / 2 :: real)"
    by (rule real_less_rsqrt) (simp add: power2_eq_square)
  show "sqrt (1 / 2 :: real) < 71 / 100"
    by (rule real_less_lsqrt) (simp_all add: power2_eq_square)
qed

lemma falloff_grid_centre: "unorm8 (brushFalloff (sqrt (1 / 2)) 100 1) = 251 / 255"
proof -
  let ?u = "1 - sqrt (1 / 2 :: real) / 100"
  have lo: "9929 / 10000 < ?u" using sqrt_half_bounds(2) by simp
  have hi: "?u < 9930 / 10000" using sqrt_half_bounds(1) by simp
  from power_strict_mono[OF lo, of 2] have l2: "(9929 / 10000)\<^sup>2 < ?u\<^sup>2" by simp
  have u0: "0 \<le> ?u" using lo by simp
  from power_strict_mono[OF hi u0, of 2] have h2: "?u\<^sup>2 < (9930 / 10000)\<^sup>2" by simp
  have l3: "(2509 / 10 :: real) < ?u\<^sup>2 * 255"
    using l2 by (simp add: power2_eq_square)
  have h3: "?u\<^sup>2 * 255 < (2515 / 10 :: real)"
    using h2 by (simp add: power2_eq_square)
  have r: "round (?u\<^sup>2 * 255) = 251"
    using l3 h3 by (intro round_unique) simp_all
  have c: "clamp (?u\<^sup>2) 0 1 = ?u\<^sup>2"
    using l3 h3 by (simp add: clamp_def min_def max_def)
  show ?thesis
    unfolding brushFalloff_sq unorm8_def by (simp add: c r)
qed

lemma blank512_cell: "x < 512 \<Longrightarrow> y < 512 \<Longrightarrow> current simLarge ! y ! x = cellA"
  by (simp add: simLarge_def sim512_def sim0_def current_def blank512_def)

lemma simLarge_tool:
  "resolution simLarge = 512" "tool_size (tool simLarge) = 100"
  "tool_chemical (tool simLarge) = ChemB" "tool_strength (tool simLarge) = 1"
  by (simp_all add: simLarge_def sim512_def sim0_def)

lemma simLarge_painted:
  assumes "x < 512" "y < 512" "brushDist simLarge px py x y < 100"
  shows "green (current (applyBrush simLarge px py) ! y ! x)
           = unorm8 (min 1 (brushFalloff (brushDist simLarge px py x y) 100 1))"
proof -
  have r: "x < resolution simLarge" "y < resolution simLarge"
    using assms by (simp_all add: simLarge_tool)
  show ?thesis
    using assms(3)
    by (simp add: applyBrush_cell[OF wellformed_examples(5) r] Let_def simLarge_tool
        blank512_cell[OF assms(1,2)] storeRGBA8_def cellA_def)
qed

lemma unorm8_small: "0 \<le> v \<Longrightarrow> v < 1 / 510 \<Longrightarrow> unorm8 v = 0"
proof -
  assume v: "0 \<le> v" "v < 1 / 510"
  then have c: "clamp v 0 1 = v" by (simp add: clamp_def min_def max_def)
  have "round (v * 255) = 0" using v by (intro round_unique) simp_all
  then show ?thesis by (simp add: unorm8_def c)
qed

text \<open>
  Claim C7, as stated, fails on the engine's grid. The resolution is 512, so the grid
  centre \<open>(256, 256)\<close> is a corner of four texels at distance \<open>sqrt(1/2)\<close>: with the
  largest brush (size 100), strength 1 and chemical B on a field without B, the cell
  \<open>(256, 256)\<close> ends with \<open>251/255\<close>, not 1. And the stored amounts are not strictly
  decreasing up to the radius: with the brush on the centre of cell \<open>(256, 256)\<close>, the
  cells at distances 98 and 99, both inside the radius, receive nothing.
\<close>

theorem brush_centre_counterexample:
  "resolution simLarge = 512 \<and> tool_size (tool simLarge) = 100
   \<and> tool_strength (tool simLarge) = 1 \<and> tool_chemical (tool simLarge) = ChemB
   \<and> green (current simLarge ! 256 ! 256) = 0
   \<and> green (current (applyBrush simLarge 256 256) ! 256 ! 256) = 251 / 255
   \<and> brushDist simLarge (513 / 2) (511 / 2) 354 256 = 98
   \<and> brushDist simLarge (513 / 2) (511 / 2) 355 256 = 99
   \<and> green (current (applyBrush simLarge (513 / 2) (511 / 2)) ! 256 ! 354) = 0
   \<and> green (current (applyBrush simLarge (513 / 2) (511 / 2)) ! 256 ! 355) = 0"
proof -
  have b0: "green (current simLarge ! 256 ! 256) = 0"
    by (simp add: blank512_cell cellA_def)
  have dc: "brushDist simLarge 256 256 256 256 = sqrt (1 / 2)"
    by (simp add: brushDist_def distance_def simLarge_tool power2_eq_square)
  have lt: "sqrt (1 / 2 :: real) < 100" using sqrt_half_bounds(2) by simp
  have f1: "brushFalloff (sqrt (1 / 2)) 100 1 \<le> 1"
    by (rule brushFalloff_le1) (simp_all add: lt)
  have centre: "green (current (applyBrush simLarge 256 256) ! 256 ! 256) = 251 / 255"
    using simLarge_painted[of 256 256 256 256] f1
    by (simp add: dc lt falloff_grid_centre)
  have row: "real (resolution simLarge) - 511 / 2 = real (256::nat) + 1 / 2"
    by (simp add: simLarge_tool)
  have d98: "brushDist simLarge (513 / 2) (511 / 2) 354 256 = 98"
    using brushDist_row[OF row, of "513 / 2" 354] by simp
  have d99: "brushDist simLarge (513 / 2) (511 / 2) 355 256 = 99"
    using brushDist_row[OF row, of "513 / 2" 355] by simp
  have g98: "green (current (applyBrush simLarge (513 / 2) (511 / 2)) ! 256 ! 354) = 0"
    using simLarge_painted[of 354 256 "513 / 2" "511 / 2"]
    by (simp add: d98 brushFalloff_def Let_def unorm8_small)
  have g99: "green (current (applyBrush simLarge (513 / 2) (511 / 2)) ! 256 ! 355) = 0"
    using simLarge_painted[of 355 256 "513 / 2" "511 / 2"]
    by (simp add: d99 brushFalloff_def Let_def unorm8_small)
  from b0 centre d98 d99 g98 g99 show ?thesis by (simp add: simLarge_tool)
qed

text \<open>
  Claim C7, amended. With chemical B selected and strength 1, \<open>applyBrush\<close> raises channel B
  to exactly 1 in a cell on whose centre the brush lies (at the centre of the 512 grid
  there is no such cell). A cell within the radius ends with
  \<open>min(1, b + (1 - dist/size)^2)\<close> rounded to the nearest level \<open>k/255\<close>. Of two cells
  within the radius the farther one is offered the strictly smaller amount, and ends with
  no more of chemical B than the nearer one if it had no more before. A cell at a distance
  of at least the radius is unchanged.
\<close>

theorem brush_centre_falloff:
  assumes "wellformed s" "tool_chemical (tool s) = ChemB" "tool_strength (tool s) = 1"
    and "x1 < resolution s" "y1 < resolution s" "x2 < resolution s" "y2 < resolution s"
  shows
    "(let size = tool_size (tool s);
          d1 = brushDist s px py x1 y1; d2 = brushDist s px py x2 y2;
          c1 = current s ! y1 ! x1; c2 = current s ! y2 ! x2;
          c1' = current (applyBrush s px py) ! y1 ! x1;
          c2' = current (applyBrush s px py) ! y2 ! x2
      in (d1 = 0 \<and> 0 < size \<and> 0 \<le> green c1 \<longrightarrow> green c1' = 1)
       \<and> (d1 < size \<longrightarrow> green c1' = unorm8 (min 1 (green c1 + brushFalloff d1 size 1)))
       \<and> (d1 < d2 \<and> d2 < size \<longrightarrow>
            brushFalloff d2 size 1 < brushFalloff d1 size 1
            \<and> (green c2 \<le> green c1 \<longrightarrow> green c2' \<le> green c1'))
       \<and> (size \<le> d1 \<and> texel8 c1 \<longrightarrow> c1' = c1))"
proof -
  let ?size = "tool_size (tool s)"
  let ?d1 = "brushDist s px py x1 y1"
  let ?d2 = "brushDist s px py x2 y2"
  note cell1 = applyBrush_cell[OF assms(1,4,5), of px py, unfolded Let_def]
  note cell2 = applyBrush_cell[OF assms(1,6,7), of px py, unfolded Let_def]
  have g1: "green (current (applyBrush s px py) ! y1 ! x1)
      = unorm8 (min 1 (green (current s ! y1 ! x1) + brushFalloff ?d1 ?size 1))"
    if "?d1 < ?size"
    using that assms(2,3) by (simp add: cell1 storeRGBA8_def)
  have g2: "green (current (applyBrush s px py) ! y2 ! x2)
      = unorm8 (min 1 (green (current s ! y2 ! x2) + brushFalloff ?d2 ?size 1))"
    if "?d2 < ?size"
    using that assms(2,3) by (simp add: cell2 storeRGBA8_def)
  have centre: "green (current (applyBrush s px py) ! y1 ! x1) = 1"
    if "?d1 = 0" "0 < ?size" "0 \<le> green (current s ! y1 ! x1)"
  proof -
    from that have "?d1 < ?size" by simp
    from g1[OF this] that show ?thesis by (simp add: brushFalloff_def Let_def unorm8_1)
  qed
  have dec: "brushFalloff ?d2 ?size 1 < brushFalloff ?d1 ?size 1" if "?d1 < ?d2" "?d2 < ?size"
    using brushDist_nonneg that by (rule brushFalloff_decreasing)
  have weak: "green (current (applyBrush s px py) ! y2 ! x2)
                \<le> green (current (applyBrush s px py) ! y1 ! x1)"
    if "?d1 < ?d2" "?d2 < ?size" "green (current s ! y2 ! x2) \<le> green (current s ! y1 ! x1)"
  proof -
    from that have lt: "?d1 < ?size" by simp
    from dec[OF that(1,2)] that(3)
    have "min 1 (green (current s ! y2 ! x2) + brushFalloff ?d2 ?size 1)
        \<le> min 1 (green (current s ! y1 ! x1) + brushFalloff ?d1 ?size 1)"
      by simp
    from unorm8_mono[OF this] show ?thesis by (simp add: g1[OF lt] g2[OF that(2)])
  qed
  have out: "current (applyBrush s px py) ! y1 ! x1 = current s ! y1 ! x1"
    if "?size \<le> ?d1" "texel8 (current s ! y1 ! x1)"
    using that by (simp add: cell1 texel8_def)
  show ?thesis
  proof (unfold Let_def, intro conjI impI, goal_cases)
    case 1
    then show ?case using centre by blast
  next
    case 2
    then show ?case by (rule g1)
  next
    case 3
    then show ?case using dec by blast
  next
    case 4
    then show ?case using weak by blast
  next
    case 5
    then show ?case using out by blast
  qed
qed

lemma unorm8_9801: "unorm8 (9801 / 10000) = 250 / 255"
proof -
  have "round (9801 / 10000 * 255 :: real) = 250" by (rule round_unique) simp_all
  then show ?thesis by (simp add: unorm8_def clamp_def)
qed

theorem brush_centre_falloff_witness:
  "wellformed simLarge \<and> tool_chemical (tool simLarge) = ChemB
   \<and> tool_strength (tool simLarge) = 1 \<and> resolution simLarge = 512
   \<and> brushDist simLarge (513 / 2) (511 / 2) 256 256 = 0
   \<and> brushDist simLarge (513 / 2) (511 / 2) 257 256 = 1
   \<and> green (current (applyBrush simLarge (513 / 2) (511 / 2)) ! 256 ! 256) = 1
   \<and> green (current (applyBrush simLarge (513 / 2) (511 / 2)) ! 256 ! 257) = 250 / 255
   \<and> green (current (applyBrush simLarge (513 / 2) (511 / 2)) ! 256 ! 257)
       \<le> green (current (applyBrush simLarge (513 / 2) (511 / 2)) ! 256 ! 256)
   \<and> tool_size (tool simLarge) \<le> brushDist simLarge (513 / 2) (511 / 2) 356 256
   \<and> texel8 (current simLarge ! 256 ! 356)
   \<and> current (applyBrush simLarge (513 / 2) (511 / 2)) ! 256 ! 356 = current simLarge ! 256 ! 356"
proof -
  have r: "(256::nat) < resolution simLarge" "(257::nat) < resolution simLarge"
    "(356::nat) < resolution simLarge"
    by (simp_all add: simLarge_tool)
  have row: "real (resolution simLarge) - 511 / 2 = real (256::nat) + 1 / 2"
    by (simp add: simLarge_tool)
  have d: "brushDist simLarge (513 / 2) (511 / 2) 256 256 = 0"
    "brushDist simLarge (513 / 2) (511 / 2) 257 256 = 1"
    "brushDist simLarge (513 / 2) (511 / 2) 356 256 = 100"
    using brushDist_row[OF row, of "513 / 2" 256] brushDist_row[OF row, of "513 / 2" 257]
      brushDist_row[OF row, of "513 / 2" 356]
    by simp_all
  have c: "current simLarge ! 256 ! 256 = cellA" "current simLarge ! 256 ! 257 = cellA"
    "current simLarge ! 256 ! 356 = cellA"
    by (simp_all add: blank512_cell)
  note th = brush_centre_falloff[OF wellformed_examples(5) simLarge_tool(3,4) r(1) r(1) r(2) r(1),
      of "513 / 2" "511 / 2", unfolded Let_def d c simLarge_tool]
  note far = brush_centre_falloff[OF wellformed_examples(5) simLarge_tool(3,4) r(3) r(1) r(2) r(1),
      of "513 / 2" "511 / 2", unfolded Let_def d c simLarge_tool]
  note near = brush_centre_falloff[OF wellformed_examples(5) simLarge_tool(3,4) r(2) r(1) r(1) r(1),
      of "513 / 2" "511 / 2", unfolded Let_def d c simLarge_tool]
  have a: "green (current (applyBrush simLarge (513 / 2) (511 / 2)) ! 256 ! 256) = 1"
    using th[THEN conjunct1] by (simp add: cellA_def)
  have b: "green (current (applyBrush simLarge (513 / 2) (511 / 2)) ! 256 ! 257) = 250 / 255"
    using near[THEN conjunct2, THEN conjunct1]
    by (simp add: cellA_def brushFalloff_def Let_def unorm8_9801)
  have m: "green (current (applyBrush simLarge (513 / 2) (511 / 2)) ! 256 ! 257)
       \<le> green (current (applyBrush simLarge (513 / 2) (511 / 2)) ! 256 ! 256)"
    using th[THEN conjunct2, THEN conjunct2, THEN conjunct1] by simp
  have o: "current (applyBrush simLarge (513 / 2) (511 / 2)) ! 256 ! 356 = cellA"
    using far[THEN conjunct2, THEN conjunct2, THEN conjunct2] texel8_cells(1) by simp
  have e: "tool_size (tool simLarge) \<le> brushDist simLarge (513 / 2) (511 / 2) 356 256"
    by (simp add: d simLarge_tool)
  from wellformed_examples(5) simLarge_tool d(1,2) a b m e o c(3) texel8_cells(1)
  show ?thesis by simp
qed

subsection \<open>Brush and stamp on the two textures\<close>

lemma stamped_refl: "stamped d d"
  by (simp add: stamped_def list_all2_same)

lemma stampPixel_stamped:
  assumes "stamped d0 d"
  shows "stamped d0 (stampPixel R x y radius dy dx d)"
proof -
  let ?P = "\<lambda>c c'. c' = c \<or> c' = c\<lparr>green := (1::real)\<rparr>"
  have upd: "stamped d0 (d[i := (d ! i)[j := (d ! i ! j)\<lparr>green := 1\<rparr>]])" for i j
  proof (cases "i < length d")
    case False
    then have "length d \<le> i" by simp
    then have "d[i := (d ! i)[j := (d ! i ! j)\<lparr>green := 1\<rparr>]] = d" by (rule list_update_beyond)
    with assms show ?thesis by simp
  next
    case True
    from assms have all: "list_all2 (list_all2 ?P) d0 d" by (simp add: stamped_def)
    with True have row: "list_all2 ?P (d0 ! i) (d ! i)" by (simp add: list_all2_conv_all_nth)
    have row': "list_all2 ?P (d0 ! i) ((d ! i)[j := (d ! i ! j)\<lparr>green := 1\<rparr>])"
    proof (cases "j < length (d ! i)")
      case False
      then have "length (d ! i) \<le> j" by simp
      then have "(d ! i)[j := (d ! i ! j)\<lparr>green := 1\<rparr>] = d ! i" by (rule list_update_beyond)
      with row show ?thesis by simp
    next
      case True
      from row True have "?P (d0 ! i ! j) (d ! i ! j)" by (simp add: list_all2_conv_all_nth)
      then have "?P (d0 ! i ! j) ((d ! i ! j)\<lparr>green := 1\<rparr>)" by auto
      from list_all2_update_cong[OF row this, of j] show ?thesis by simp
    qed
    from list_all2_update_cong[OF all row', of i] show ?thesis by (simp add: stamped_def)
  qed
  show ?thesis using assms upd by (simp add: stampPixel_def Let_def)
qed

lemma fold_stamped_row:
  "stamped d0 d \<Longrightarrow> stamped d0 (fold (\<lambda>dx. stampPixel R x y radius dy dx) dxs d)"
  by (induction dxs arbitrary: d) (simp_all add: stampPixel_stamped)

lemma fold_stamped:
  "stamped d0 d \<Longrightarrow>
   stamped d0 (fold (\<lambda>dy d. fold (\<lambda>dx. stampPixel R x y radius dy dx) dxs d) dys d)"
  by (induction dys arbitrary: d) (simp_all add: fold_stamped_row)

lemma applyStamp_current:
  "wellformed s \<Longrightarrow>
   current (applyStamp s x y) =
     fold (\<lambda>dy d. fold (\<lambda>dx. stampPixel (resolution s) x y (tool_size (tool s)) dy dx)
                      (loopOffsets (tool_size (tool s))) d)
       (loopOffsets (tool_size (tool s))) (current s)"
  by (simp add: wellformed_def applyStamp_def Let_def current_def)

lemma applyStamp_stamped: "wellformed s \<Longrightarrow> stamped (current s) (current (applyStamp s x y))"
  by (simp add: applyStamp_current fold_stamped stamped_refl)

lemma stamped_field01: "stamped d d' \<Longrightarrow> field01 d \<Longrightarrow> field01 d'"
  unfolding stamped_def field01_def list_all_length list_all2_conv_all_nth
  by (auto simp: in01_def) (metis (no_types, lifting) vec4.select_convs vec4.surjective vec4.update_convs order_refl zero_le_one)+


text \<open>
  Claim C6, amended. The brush reads the current texture, renders its result into the
  scratch texture and then flips \<open>currentTexture\<close>, as the stepper does; the texture that was
  current is left as it was. The stamp reads the current texture and uploads its result
  into the current texture again: \<open>currentTexture\<close> is not flipped, the scratch texture is
  not touched, and the current texture keeps its shape, each texel either as it was or
  with channel B set to 1.
\<close>

theorem forcing_buffers:
  assumes "wellformed s"
  shows "currentTexture (applyBrush s x y) = 1 - currentTexture s
       \<and> scratch (applyBrush s x y) = current s
       \<and> current (applyBrush s x y) =
           drawArrays (resolution s)
             (\<lambda>cx cy. storeRGBA8
                (brushSource (current s) (resolution s) (x, real (resolution s) - y)
                   (tool_size (tool s)) (tool_strength (tool s))
                   (if tool_chemical (tool s) = ChemB then 1 else 0) cx cy))
       \<and> wellformed (applyBrush s x y)
       \<and> currentTexture (applyStamp s x y) = currentTexture s
       \<and> scratch (applyStamp s x y) = scratch s
       \<and> stamped (current s) (current (applyStamp s x y))
       \<and> wellformed (applyStamp s x y)"
proof -
  from assms have c: "1 - currentTexture s \<noteq> currentTexture s" "currentTexture s < 2"
    "length (textures s) = 2"
    using flip_index[of "currentTexture s"] by (simp_all add: wellformed_def)
  have b1: "currentTexture (applyBrush s x y) = 1 - currentTexture s"
    by (simp add: applyBrush_def Let_def)
  have b2: "scratch (applyBrush s x y) = current s"
    using c by (simp add: applyBrush_def Let_def scratch_def current_def)
  have b3: "wellformed (applyBrush s x y)"
    using c by (simp add: applyBrush_def Let_def wellformed_def)
  have s1: "currentTexture (applyStamp s x y) = currentTexture s"
    by (simp add: applyStamp_def Let_def)
  have s2: "scratch (applyStamp s x y) = scratch s"
    using c by (simp add: applyStamp_def Let_def scratch_def)
  have s3: "wellformed (applyStamp s x y)"
    using c by (simp add: applyStamp_def Let_def wellformed_def)
  from b1 b2 b3 s1 s2 s3 applyBrush_current[OF assms] applyStamp_stamped[OF assms]
  show ?thesis by simp
qed

lemma loopOffsets_1: "loopOffsets 1 = [- 1, 0, 1]"
  by (simp add: loopOffsets_def upt_rec)

theorem forcing_buffers_witness:
  "wellformed simStamp
   \<and> currentTexture (applyBrush simStamp (3 / 2) (3 / 2)) = 1
   \<and> scratch (applyBrush simStamp (3 / 2) (3 / 2)) = blank3
   \<and> currentTexture (applyStamp simStamp (3 / 2) (3 / 2)) = 0
   \<and> scratch (applyStamp simStamp (3 / 2) (3 / 2)) = seed3
   \<and> stamped blank3 (current (applyStamp simStamp (3 / 2) (3 / 2)))"
proof -
  have w: "wellformed simStamp" by (simp add: wellformed_def simStamp_def sim0_def)
  have c: "currentTexture simStamp = 0" "current simStamp = blank3" "scratch simStamp = seed3"
    by (simp_all add: simStamp_def sim0_def current_def scratch_def)
  from forcing_buffers[OF w, of "3 / 2" "3 / 2"] w c show ?thesis by simp
qed

text \<open>
  Claim C6, as stated, fails for the stamp. On an engine whose current texture (index 0)
  is blank and whose scratch texture (index 1) is the seeded field, a stamp of size 1 in
  the middle leaves \<open>currentTexture\<close> at 0, writes the disc into texture 0 and leaves
  texture 1 as it was: there is no write to the scratch texture and no swap.
\<close>

theorem stamp_counterexample:
  "currentTexture simStamp = 0 \<and> current simStamp = blank3 \<and> scratch simStamp = seed3
   \<and> currentTexture (applyStamp simStamp (3 / 2) (3 / 2)) = 0
   \<and> textures (applyStamp simStamp (3 / 2) (3 / 2)) ! 0
       = [[cellA, cellB, cellA], [cellB, cellB, cellB], [cellA, cellB, cellA]]
   \<and> textures (applyStamp simStamp (3 / 2) (3 / 2)) ! 1 = seed3
   \<and> handleCanvasInteraction simStamp (3 / 2) (3 / 2) = applyStamp simStamp (3 / 2) (3 / 2)"
  by (simp add: applyStamp_def handleCanvasInteraction_def simStamp_def sim0_def current_def
      scratch_def loopOffsets_1 stampPixel_def blank3_def Let_def cellA_def cellB_def)

end
